theory Spec2Isabelle
  imports Main
begin

section \<open>The autonomous client: conversation state and the tool-orchestration loop\<close>

text \<open>
  Embedding of \<^verbatim>\<open>run_autonomous_agent\<close> (src/clients/openai_client.py). The
  conversation is the Python list \<^verbatim>\<open>messages\<close>; each dictionary appended to it is a
  constructor of \<open>message\<close>. Python exceptions (subclasses of \<^verbatim>\<open>Exception\<close>) are values
  carrying the class name and the text of \<^verbatim>\<open>str(e)\<close>.
\<close>

datatype py_exception = PyException (exc_type: string) (exc_msg: string)

record tool_call =
  tc_id :: string
  tc_name :: string
  tc_arguments :: string

datatype role = System | User | Assistant | Tool

datatype message =
    SystemMsg string
  | UserMsg string
  | AssistantMsg "string option" "tool_call list option"
  | ToolMsg string string

fun role_of :: "message \<Rightarrow> role" where
  "role_of (SystemMsg c) = System"
| "role_of (UserMsg c) = User"
| "role_of (AssistantMsg c tcs) = Assistant"
| "role_of (ToolMsg i c) = Tool"

text \<open>The message of the first choice of a chat completion.\<close>

record assistant_message =
  am_content :: "string option"
  am_tool_calls :: "tool_call list option"

text \<open>One item of \<^verbatim>\<open>result.content\<close>; only text items have a \<^verbatim>\<open>text\<close> attribute.\<close>

datatype content_item = TextItem string | OtherItem

text \<open>
  What the loop prints, and the two external calls it awaits, in the order they happen.
  \<open>CallModel\<close> and \<open>CallTool\<close> record that the request was issued.
\<close>

datatype event =
    CallModel
  | PrintAssistant string
  | PrintExecuting nat
  | PrintToolName string
  | CallTool string string
  | PrintResult string
  | PrintMaxIterations
  | PrintError py_exception

text \<open>
  The collaborators outside the repository: the chat-completion endpoint, \<^verbatim>\<open>json.loads\<close>
  and the MCP session. The two remote calls read and change an external world \<open>'w\<close>, so
  the same conversation may get different answers at different times; each may raise.
\<close>

record ('w, 'j) env =
  create :: "'w \<Rightarrow> message list \<Rightarrow> (py_exception + assistant_message) \<times> 'w"
  json_loads :: "string \<Rightarrow> py_exception + 'j"
  session_call_tool :: "'w \<Rightarrow> string \<Rightarrow> 'j \<Rightarrow> (py_exception + content_item list) \<times> 'w"

record 'w agent_state =
  messages :: "message list"
  world :: "'w"
  trace :: "event list"

definition max_iterations :: nat where
  "max_iterations = 10"

text \<open>\<^verbatim>\<open>tool_result = ""; for content in result.content: if hasattr(content, 'text'): tool_result += content.text\<close>\<close>

fun tool_text :: "content_item list \<Rightarrow> string" where
  "tool_text [] = []"
| "tool_text (TextItem t # cs) = t @ tool_text cs"
| "tool_text (OtherItem # cs) = tool_text cs"

text \<open>
  The \<^verbatim>\<open>for tool_call in assistant_message.tool_calls\<close> loop. An exception leaves the loop
  at once; what was appended to \<^verbatim>\<open>messages\<close> before it stays appended.
\<close>

fun dispatch_batch ::
  "('w, 'j) env \<Rightarrow> tool_call list \<Rightarrow> 'w agent_state \<Rightarrow> py_exception option \<times> 'w agent_state" where
  "dispatch_batch E [] s = (None, s)"
| "dispatch_batch E (tc # tcs) s =
     (case json_loads E (tc_arguments tc) of
        Inl e \<Rightarrow> (Some e, s)
      | Inr args \<Rightarrow>
          (case session_call_tool E (world s) (tc_name tc) args of
             (Inl e, w) \<Rightarrow>
               (Some e, s\<lparr>world := w,
                          trace := trace s @ [PrintToolName (tc_name tc), CallTool (tc_id tc) (tc_name tc)]\<rparr>)
           | (Inr res, w) \<Rightarrow>
               dispatch_batch E tcs
                 (s\<lparr>messages := messages s @ [ToolMsg (tc_id tc) (tool_text res)],
                    world := w,
                    trace := trace s @ [PrintToolName (tc_name tc), CallTool (tc_id tc) (tc_name tc),
                                        PrintResult (tool_text res)]\<rparr>)))"

text \<open>\<^verbatim>\<open>if not assistant_message.tool_calls\<close>: \<^verbatim>\<open>None\<close> and the empty list are falsy.\<close>

fun requested_calls :: "tool_call list option \<Rightarrow> tool_call list" where
  "requested_calls None = []"
| "requested_calls (Some tcs) = tcs"

text \<open>\<^verbatim>\<open>if assistant_message.content: print(...)\<close>\<close>

fun print_content :: "string option \<Rightarrow> event list" where
  "print_content None = []"
| "print_content (Some c) = (if c = [] then [] else [PrintAssistant c])"

text \<open>
  The \<^verbatim>\<open>while iteration < max_iterations\<close> loop, from the value of \<^verbatim>\<open>iteration\<close> on entry.
  It returns the exception that left it (if any), the final value of \<^verbatim>\<open>iteration\<close>, and
  the state.
\<close>

function while_loop ::
  "('w, 'j) env \<Rightarrow> nat \<Rightarrow> 'w agent_state \<Rightarrow> py_exception option \<times> nat \<times> 'w agent_state" where
  "while_loop E iteration s =
     (if iteration < max_iterations then
        (case create E (world s) (messages s) of
           (Inl e, w) \<Rightarrow> (Some e, iteration + 1, s\<lparr>world := w, trace := trace s @ [CallModel]\<rparr>)
         | (Inr am, w) \<Rightarrow>
             (let s1 = s\<lparr>messages := messages s @ [AssistantMsg (am_content am) (am_tool_calls am)],
                         world := w, trace := trace s @ [CallModel]\<rparr>
              in if requested_calls (am_tool_calls am) = [] then
                   (None, iteration + 1, s1\<lparr>trace := trace s1 @ print_content (am_content am)\<rparr>)
                 else
                   (case dispatch_batch E (requested_calls (am_tool_calls am))
                           (s1\<lparr>trace := trace s1 @ [PrintExecuting (iteration + 1)]\<rparr>) of
                      (Some e, s2) \<Rightarrow> (Some e, iteration + 1, s2)
                    | (None, s2) \<Rightarrow> while_loop E (iteration + 1) s2)))
      else (None, iteration, s))"
  by pat_completeness auto
termination
  by (relation "measure (\<lambda>(E, iteration, s). max_iterations - iteration)") auto

text \<open>
  The \<^verbatim>\<open>except Exception\<close> handler of a turn. \<^verbatim>\<open>messages[-1]\<close> on an empty list raises
  \<^verbatim>\<open>IndexError\<close>, which leaves the handler.
\<close>

definition on_error :: "message list \<Rightarrow> py_exception + message list" where
  "on_error ms =
     (if ms = [] then Inl (PyException ''IndexError'' ''list index out of range'')
      else if role_of (last ms) = User then Inr (butlast ms)
      else Inr ms)"

text \<open>
  One pass of the chat loop for a non-empty \<^verbatim>\<open>user_input\<close> that is not a quit command:
  append the user message, run the loop, then either the ceiling check or the handler.
  \<open>Inl\<close> is an exception that escapes to the outer handler and ends the session.
\<close>

definition run_turn ::
  "('w, 'j) env \<Rightarrow> string \<Rightarrow> 'w agent_state \<Rightarrow> py_exception + 'w agent_state" where
  "run_turn E user_input s =
     (case while_loop E 0 (s\<lparr>messages := messages s @ [UserMsg user_input]\<rparr>) of
        (None, iteration, s1) \<Rightarrow>
          Inr (if iteration \<ge> max_iterations then s1\<lparr>trace := trace s1 @ [PrintMaxIterations]\<rparr> else s1)
      | (Some e, iteration, s1) \<Rightarrow>
          (case on_error (messages s1) of
             Inl e' \<Rightarrow> Inl e'
           | Inr ms \<Rightarrow> Inr (s1\<lparr>messages := ms, trace := trace s1 @ [PrintError e]\<rparr>)))"

subsection \<open>Observations on a conversation and on what was printed\<close>

text \<open>The \<^verbatim>\<open>tool_call_id\<close> key, which only tool-role messages have.\<close>

fun msg_call_id :: "message \<Rightarrow> string option" where
  "msg_call_id (ToolMsg i c) = Some i"
| "msg_call_id m = None"

text \<open>The ids of the calls handed to the MCP session, in the order they were issued.\<close>

fun dispatched_ids :: "event list \<Rightarrow> string list" where
  "dispatched_ids [] = []"
| "dispatched_ids (CallTool i n # es) = i # dispatched_ids es"
| "dispatched_ids (e # es) = dispatched_ids es"

text \<open>The loop itself appends assistant and tool messages only.\<close>

definition fresh_roles :: "message list \<Rightarrow> bool" where
  "fresh_roles new = (\<forall>m \<in> set new. role_of m = Assistant \<or> role_of m = Tool)"

subsection \<open>A batch as the specification describes it\<close>

text \<open>
  \<open>dispatches E w tcs ms w'\<close>: dispatching the calls \<open>tcs\<close> one after the other from the
  world \<open>w\<close>, none raises, \<open>ms\<close> are their tool-role messages and \<open>w'\<close> is the world
  afterwards.
\<close>

fun dispatches :: "('w, 'j) env \<Rightarrow> 'w \<Rightarrow> tool_call list \<Rightarrow> message list \<Rightarrow> 'w \<Rightarrow> bool" where
  "dispatches E w [] ms w' = (ms = [] \<and> w' = w)"
| "dispatches E w (tc # tcs) ms w' =
     (case json_loads E (tc_arguments tc) of
        Inl e \<Rightarrow> False
      | Inr args \<Rightarrow>
          (case session_call_tool E w (tc_name tc) args of
             (Inl e, w1) \<Rightarrow> False
           | (Inr res, w1) \<Rightarrow>
               (case ms of
                  [] \<Rightarrow> False
                | m # ms' \<Rightarrow> m = ToolMsg (tc_id tc) (tool_text res) \<and> dispatches E w1 tcs ms' w')))"

text \<open>The dispatch of one call raises, in \<^verbatim>\<open>json.loads\<close> or in \<^verbatim>\<open>session.call_tool\<close>.\<close>

definition parse_raises :: "('w, 'j) env \<Rightarrow> tool_call \<Rightarrow> py_exception \<Rightarrow> bool" where
  "parse_raises E tc e = (json_loads E (tc_arguments tc) = Inl e)"

definition call_raises :: "('w, 'j) env \<Rightarrow> 'w \<Rightarrow> tool_call \<Rightarrow> py_exception \<Rightarrow> 'w \<Rightarrow> bool" where
  "call_raises E w tc e w' =
     (case json_loads E (tc_arguments tc) of
        Inl e' \<Rightarrow> False
      | Inr args \<Rightarrow> session_call_tool E w (tc_name tc) args = (Inl e, w'))"

text \<open>What the loop prints and calls for the calls that went through.\<close>

fun batch_trace :: "tool_call list \<Rightarrow> message list \<Rightarrow> event list" where
  "batch_trace (tc # tcs) (ToolMsg i c # ms) =
     [PrintToolName (tc_name tc), CallTool (tc_id tc) (tc_name tc), PrintResult c] @ batch_trace tcs ms"
| "batch_trace tcs ms = []"

subsection \<open>Example collaborators\<close>

text \<open>
  Small concrete environments for evaluating the loop. The world is a counter of the
  completions served so far. \<open>loads_stub\<close> parses the empty object and rejects everything
  else, as \<^verbatim>\<open>json.loads\<close> rejects the truncated payload \<^verbatim>\<open>{\<close>.
\<close>

definition time_call :: tool_call where
  "time_call = \<lparr>tc_id = ''call_1'', tc_name = ''get_time'', tc_arguments = ''{}''\<rparr>"

definition bad_call :: tool_call where
  "bad_call = \<lparr>tc_id = ''call_2'', tc_name = ''calculate'', tc_arguments = ''{''\<rparr>"

definition loads_stub :: "string \<Rightarrow> py_exception + string" where
  "loads_stub a =
     (if a = ''{}'' then Inr a
      else Inl (PyException ''JSONDecodeError'' ''Expecting property name enclosed in double quotes''))"

definition host_stub :: "nat \<Rightarrow> string \<Rightarrow> string \<Rightarrow> (py_exception + content_item list) \<times> nat" where
  "host_stub w n a = (Inr [TextItem ''ok''], w)"

text \<open>A model that asks for a tool in every response.\<close>

definition env_looping :: "(nat, string) env" where
  "env_looping =
     \<lparr>create = (\<lambda>w ms. (Inr \<lparr>am_content = None, am_tool_calls = Some [time_call]\<rparr>, w + 1)),
      json_loads = loads_stub, session_call_tool = host_stub\<rparr>"

text \<open>A model that asks for a tool once; the endpoint is unreachable afterwards.\<close>

definition env_drop :: "(nat, string) env" where
  "env_drop =
     \<lparr>create = (\<lambda>w ms. if w = 0 then (Inr \<lparr>am_content = None, am_tool_calls = Some [time_call]\<rparr>, w + 1)
                        else (Inl (PyException ''APIConnectionError'' ''Connection error.''), w)),
      json_loads = loads_stub, session_call_tool = host_stub\<rparr>"

text \<open>A model that emits a batch of two calls, the second with malformed arguments.\<close>

definition env_badargs :: "(nat, string) env" where
  "env_badargs =
     \<lparr>create = (\<lambda>w ms. (Inr \<lparr>am_content = None, am_tool_calls = Some [time_call, bad_call]\<rparr>, w + 1)),
      json_loads = loads_stub, session_call_tool = host_stub\<rparr>"

text \<open>An endpoint that is unreachable from the start.\<close>

definition env_down :: "(nat, string) env" where
  "env_down =
     \<lparr>create = (\<lambda>w ms. (Inl (PyException ''APIConnectionError'' ''Connection error.''), w)),
      json_loads = loads_stub, session_call_tool = host_stub\<rparr>"

definition session_start :: "nat agent_state" where
  "session_start = \<lparr>messages = [SystemMsg ''You are a helpful autonomous assistant''], world = 0, trace = []\<rparr>"

definition session_asked :: "nat agent_state" where
  "session_asked = session_start\<lparr>messages := messages session_start @ [UserMsg ''hi'']\<rparr>"

definition session_answered :: "nat agent_state" where
  "session_answered =
     \<lparr>messages = [SystemMsg ''You are a helpful autonomous assistant'', UserMsg ''hi'',
                  AssistantMsg None (Some [time_call]), ToolMsg ''call_1'' ''ok''],
      world = 1,
      trace = [CallModel, PrintExecuting 1, PrintToolName ''get_time'', CallTool ''call_1'' ''get_time'',
               PrintResult ''ok'']\<rparr>"

text \<open>A model that emits a batch of two well-formed calls.\<close>

definition weather_call :: tool_call where
  "weather_call = \<lparr>tc_id = ''call_2'', tc_name = ''get_weather'', tc_arguments = ''{}''\<rparr>"

definition env_pair :: "(nat, string) env" where
  "env_pair =
     \<lparr>create = (\<lambda>w ms. (Inr \<lparr>am_content = None, am_tool_calls = Some [time_call, weather_call]\<rparr>, w + 1)),
      json_loads = loads_stub, session_call_tool = host_stub\<rparr>"

text \<open>The same batch on a host where \<^verbatim>\<open>get_weather\<close> fails.\<close>

definition env_flaky :: "(nat, string) env" where
  "env_flaky =
     \<lparr>create = (\<lambda>w ms. (Inr \<lparr>am_content = None, am_tool_calls = Some [time_call, weather_call]\<rparr>, w + 1)),
      json_loads = loads_stub,
      session_call_tool = (\<lambda>w n a. if n = ''get_weather''
                                      then (Inl (PyException ''McpError'' ''Connection closed''), w)
                                      else (Inr [TextItem ''ok''], w))\<rparr>"

text \<open>
  A model that asks for a tool in every response, on a host that fails from the tenth
  completion on.
\<close>

definition env_late :: "(nat, string) env" where
  "env_late =
     \<lparr>create = (\<lambda>w ms. (Inr \<lparr>am_content = None, am_tool_calls = Some [time_call]\<rparr>, w + 1)),
      json_loads = loads_stub,
      session_call_tool = (\<lambda>w n a. if 10 \<le> w
                                      then (Inl (PyException ''McpError'' ''Connection closed''), w)
                                      else (Inr [TextItem ''ok''], w))\<rparr>"

text \<open>The state in which the batch of the first response is dispatched.\<close>

definition session_batch :: "tool_call list \<Rightarrow> nat agent_state" where
  "session_batch tcs =
     session_asked\<lparr>messages := messages session_asked @ [AssistantMsg None (Some tcs)],
                    world := 1,
                    trace := trace session_asked @ [CallModel, PrintExecuting (0 + 1)]\<rparr>"

section \<open>The tool server: input models, handlers and the invoker\<close>

text \<open>
  Embedding of src/servers/models/local_models.py and src/servers/mcp_tools/local_tools.py.
  A handler receives the \<^verbatim>\<open>arguments\<close> dictionary, builds its input model (which
  validates), runs, and returns one text content holding the JSON dump of an output model;
  every exception is turned into the dump of an \<^verbatim>\<open>ErrorOutput\<close>. The embedding returns
  the output model itself, and the text of a Python string is a \<open>string\<close> whose characters
  are its code points (those below 256).
\<close>

subsection \<open>Argument values\<close>

text \<open>
  The values \<^verbatim>\<open>json.loads\<close> produces. Python floats are IEEE doubles; they are kept
  abstract as a type \<open>'f\<close> with the operations the code applies to them.
\<close>

datatype 'f pyval =
    PNone
  | PBool bool
  | PInt int
  | PFloat 'f
  | PStr string
  | PList "'f pyval list"
  | PDict "(string \<times> 'f pyval) list"

type_synonym 'f arguments = "string \<rightharpoonup> 'f pyval"

record 'f float_ops =
  f_validate :: "'f pyval \<Rightarrow> 'f option"
  f_of_decimal :: "int \<Rightarrow> nat \<Rightarrow> 'f"
  f_add :: "'f \<Rightarrow> 'f \<Rightarrow> 'f"
  f_sub :: "'f \<Rightarrow> 'f \<Rightarrow> 'f"
  f_mul :: "'f \<Rightarrow> 'f \<Rightarrow> 'f"
  f_quot :: "'f \<Rightarrow> 'f \<Rightarrow> 'f"
  f_is_zero :: "'f \<Rightarrow> bool"
  f_lt :: "'f \<Rightarrow> 'f \<Rightarrow> bool"
  f_repr :: "'f \<Rightarrow> string"
  f_round2 :: "'f \<Rightarrow> 'f"
  f_fmt2 :: "'f \<Rightarrow> string"
  py_str :: "'f pyval \<Rightarrow> string"

text \<open>
  \<open>f_validate\<close> is pydantic's validation of a \<^verbatim>\<open>float\<close> field (which also converts
  integers), \<open>f_of_decimal m d\<close> the double written \<open>m / 10^d\<close> in the source,
  \<open>f_quot\<close> the quotient for a divisor that is not zero, \<open>f_is_zero v\<close> the test
  \<^verbatim>\<open>v == 0\<close>, \<open>f_repr\<close> the text an f-string gives, \<open>f_round2\<close> is \<^verbatim>\<open>round(x, 2)\<close>,
  \<open>f_fmt2\<close> the format \<^verbatim>\<open>:.2f\<close>, and \<open>py_str\<close> is \<^verbatim>\<open>str()\<close> of a value that is
  not a string.
\<close>

subsection \<open>Validation errors\<close>

text \<open>
  One entry of a pydantic \<^verbatim>\<open>ValidationError\<close>: what failed for a field. \<open>ValueError\<close>
  carries the message of the exception a field validator raised.
\<close>

datatype constraint =
    Missing
  | WrongType string
  | PatternMismatch string
  | TooShort nat
  | TooLong nat
  | ValueError string

type_synonym verrors = "(string \<times> constraint) list"

text \<open>The outcome of validating one field: the errors it adds, or its value.\<close>

type_synonym 'a field = "verrors + 'a"

fun field_errors :: "'a field \<Rightarrow> verrors" where
  "field_errors (Inl es) = es"
| "field_errors (Inr v) = []"

text \<open>A required \<^verbatim>\<open>str\<close> field: the key must be present and hold a string.\<close>

definition required_str :: "'f arguments \<Rightarrow> string \<Rightarrow> string field" where
  "required_str args k =
     (case args k of
        None \<Rightarrow> Inl [(k, Missing)]
      | Some (PStr s) \<Rightarrow> Inr s
      | Some v \<Rightarrow> Inl [(k, WrongType ''string'')])"

text \<open>A required \<^verbatim>\<open>float\<close> field.\<close>

definition required_float :: "'f float_ops \<Rightarrow> 'f arguments \<Rightarrow> string \<Rightarrow> 'f field" where
  "required_float F args k =
     (case args k of
        None \<Rightarrow> Inl [(k, Missing)]
      | Some v \<Rightarrow> (case f_validate F v of None \<Rightarrow> Inl [(k, WrongType ''float'')] | Some x \<Rightarrow> Inr x))"

text \<open>\<^verbatim>\<open>min_length\<close> and \<^verbatim>\<open>max_length\<close> of a string field, checked on the value given.\<close>

definition check_length :: "string \<Rightarrow> nat \<Rightarrow> nat option \<Rightarrow> string \<Rightarrow> string field" where
  "check_length k lo hi s =
     (if length s < lo then Inl [(k, TooShort lo)]
      else case hi of
             None \<Rightarrow> Inr s
           | Some h \<Rightarrow> if h < length s then Inl [(k, TooLong h)] else Inr s)"

text \<open>Running the next step of a field's validation on the value so far.\<close>

fun and_then :: "'a field \<Rightarrow> ('a \<Rightarrow> 'b field) \<Rightarrow> 'b field" where
  "and_then (Inl es) f = Inl es"
| "and_then (Inr v) f = f v"

subsection \<open>Input models\<close>

record 'f calculate_input =
  ci_operation :: string
  ci_a :: 'f
  ci_b :: 'f

text \<open>The pattern \<^verbatim>\<open>^(add|subtract|multiply|divide)$\<close>.\<close>

definition operation_pattern :: "string \<Rightarrow> bool" where
  "operation_pattern s = (s \<in> set [''add'', ''subtract'', ''multiply'', ''divide''])"

text \<open>
  \<^verbatim>\<open>validate_division(cls, v, info)\<close>: \<^verbatim>\<open>info.data\<close> holds the fields validated before
  \<^verbatim>\<open>b\<close>, so \<^verbatim>\<open>operation\<close> is there only when it was valid.
\<close>

definition validate_division :: "'f float_ops \<Rightarrow> string field \<Rightarrow> 'f \<Rightarrow> 'f field" where
  "validate_division F operation v =
     (if operation = Inr ''divide'' \<and> f_is_zero F v then Inl [(''b'', ValueError ''Cannot divide by zero'')]
      else Inr v)"

definition CalculateInput :: "'f float_ops \<Rightarrow> 'f arguments \<Rightarrow> verrors + 'f calculate_input" where
  "CalculateInput F args =
     (let operation = and_then (required_str args ''operation'')
                        (\<lambda>s. if operation_pattern s then Inr s
                             else Inl [(''operation'', PatternMismatch ''^(add|subtract|multiply|divide)$'')]);
          a = required_float F args ''a'';
          b = and_then (required_float F args ''b'') (validate_division F operation)
      in case (operation, a, b) of
           (Inr op, Inr x, Inr y) \<Rightarrow> Inr \<lparr>ci_operation = op, ci_a = x, ci_b = y\<rparr>
         | _ \<Rightarrow> Inl (field_errors operation @ field_errors a @ field_errors b))"

text \<open>\<^verbatim>\<open>str.strip()\<close>: the white space among the code points below 256.\<close>

definition py_isspace :: "char \<Rightarrow> bool" where
  "py_isspace c = (of_char c \<in> set [9, 10, 11, 12, 13, 28, 29, 30, 31, 32, 133, 160 :: nat])"

definition strip :: "string \<Rightarrow> string" where
  "strip s = rev (dropWhile py_isspace (rev (dropWhile py_isspace s)))"

record weather_input =
  wi_city :: string

definition WeatherInput :: "'f arguments \<Rightarrow> verrors + weather_input" where
  "WeatherInput args =
     (case and_then (and_then (required_str args ''city'') (check_length ''city'' 1 (Some 100)))
                    (\<lambda>v. Inr (strip v)) of
        Inl es \<Rightarrow> Inl es
      | Inr c \<Rightarrow> Inr \<lparr>wi_city = c\<rparr>)"

record note_input =
  ni_title :: string
  ni_content :: string
  ni_tags :: "string list option"

definition safe_chars :: "char set" where
  "safe_chars = set ''abcdefghijklmnopqrstuvwxyzABCDEFGHIJKLMNOPQRSTUVWXYZ0123456789-_ ''"

definition sanitize_title :: "string \<Rightarrow> string field" where
  "sanitize_title v =
     (let sanitized = strip (filter (\<lambda>c. c \<in> safe_chars) v)
      in if sanitized = [] then
           Inl [(''title'', ValueError ''Title must contain at least one alphanumeric character'')]
         else Inr sanitized)"

text \<open>\<^verbatim>\<open>Optional[list[str]]\<close> with default \<^verbatim>\<open>None\<close>.\<close>

fun str_items :: "'f pyval list \<Rightarrow> string list option" where
  "str_items [] = Some []"
| "str_items (PStr s # vs) = (case str_items vs of None \<Rightarrow> None | Some ss \<Rightarrow> Some (s # ss))"
| "str_items (v # vs) = None"

definition optional_tags :: "'f arguments \<Rightarrow> string list option field" where
  "optional_tags args =
     (case args ''tags'' of
        None \<Rightarrow> Inr None
      | Some PNone \<Rightarrow> Inr None
      | Some (PList vs) \<Rightarrow>
          (case str_items vs of None \<Rightarrow> Inl [(''tags'', WrongType ''string'')] | Some ss \<Rightarrow> Inr (Some ss))
      | Some v \<Rightarrow> Inl [(''tags'', WrongType ''list'')])"

definition NoteInput :: "'f arguments \<Rightarrow> verrors + note_input" where
  "NoteInput args =
     (let title = and_then (and_then (required_str args ''title'') (check_length ''title'' 1 (Some 100)))
                           sanitize_title;
          content = and_then (required_str args ''content'') (check_length ''content'' 1 None);
          tags = optional_tags args
      in case (title, content, tags) of
           (Inr t, Inr c, Inr g) \<Rightarrow> Inr \<lparr>ni_title = t, ni_content = c, ni_tags = g\<rparr>
         | _ \<Rightarrow> Inl (field_errors title @ field_errors content @ field_errors tags))"

record 'f temperature_input =
  ti_temperature_fahrenheit :: 'f

text \<open>The degree sign (code point 176) of the messages.\<close>

definition degree :: string where
  "degree = [char_of (176 :: nat)]"

definition validate_temperature :: "'f float_ops \<Rightarrow> 'f \<Rightarrow> 'f field" where
  "validate_temperature F v =
     (if f_lt F v (f_of_decimal F (- 45967) 2) then
        Inl [(''temperature_fahrenheit'',
              ValueError (''Temperature cannot be below absolute zero (-459.67'' @ degree @ ''F)''))]
      else Inr v)"

definition TemperatureInput :: "'f float_ops \<Rightarrow> 'f arguments \<Rightarrow> verrors + 'f temperature_input" where
  "TemperatureInput F args =
     (case and_then (required_float F args ''temperature_fahrenheit'') (validate_temperature F) of
        Inl es \<Rightarrow> Inl es
      | Inr v \<Rightarrow> Inr \<lparr>ti_temperature_fahrenheit = v\<rparr>)"

text \<open>
  \<^verbatim>\<open>Path(v).name\<close> on a POSIX host: the last component of the path, where empty components
  and \<^verbatim>\<open>.\<close> components do not count; the empty string when there is none.
\<close>

fun split_slash :: "string \<Rightarrow> string \<Rightarrow> string list" where
  "split_slash acc [] = [rev acc]"
| "split_slash acc (c # cs) =
     (if c = CHR ''/'' then rev acc # split_slash [] cs else split_slash (c # acc) cs)"

definition path_name :: "string \<Rightarrow> string" where
  "path_name v =
     (case filter (\<lambda>p. p \<noteq> [] \<and> p \<noteq> ''.'') (split_slash [] v) of
        [] \<Rightarrow> []
      | ps \<Rightarrow> last ps)"

record file_read_input =
  fi_filename :: string

definition validate_filename :: "string \<Rightarrow> string field" where
  "validate_filename v =
     (let safe_filename = path_name v
      in if safe_filename = [] \<or> safe_filename \<noteq> v then
           Inl [(''filename'', ValueError ''Invalid filename - path traversal not allowed'')]
         else Inr safe_filename)"

definition FileReadInput :: "'f arguments \<Rightarrow> verrors + file_read_input" where
  "FileReadInput args =
     (case and_then (and_then (required_str args ''filename'') (check_length ''filename'' 1 None))
                    validate_filename of
        Inl es \<Rightarrow> Inl es
      | Inr v \<Rightarrow> Inr \<lparr>fi_filename = v\<rparr>)"

record time_input =
  ti_format :: string

definition format_pattern :: "string \<Rightarrow> bool" where
  "format_pattern s = (s \<in> set [''iso'', ''human'', ''unix''])"

text \<open>A field with a default: an absent key gives the default, which is not validated.\<close>

definition TimeInput :: "'f arguments \<Rightarrow> verrors + time_input" where
  "TimeInput args =
     (case args ''format'' of
        None \<Rightarrow> Inr \<lparr>ti_format = ''iso''\<rparr>
      | Some (PStr s) \<Rightarrow>
          if format_pattern s then Inr \<lparr>ti_format = s\<rparr>
          else Inl [(''format'', PatternMismatch ''^(iso|human|unix)$'')]
      | Some v \<Rightarrow> Inl [(''format'', WrongType ''string'')])"

subsection \<open>Output models\<close>

record ('f, 'dt) calculate_output =
  co_operation :: string
  co_operand_a :: 'f
  co_operand_b :: 'f
  co_result :: 'f
  co_formatted :: string
  co_timestamp :: 'dt

record ('f, 'dt) weather_output =
  wo_city :: string
  wo_temperature :: string
  wo_temperature_celsius :: "'f option"
  wo_condition :: string
  wo_humidity :: string
  wo_wind :: string
  wo_timestamp :: 'dt

record 'dt note_output =
  no_filename :: string
  no_title :: string
  no_content_length :: nat
  no_tags :: "string list option"
  no_created_at :: 'dt
  no_success :: bool
  no_message :: string

record ('f, 'dt) temperature_output =
  to_fahrenheit :: 'f
  to_celsius :: 'f
  to_formatted :: string
  to_timestamp :: 'dt

record file_read_output =
  fo_filename :: string
  fo_content :: string
  fo_size_bytes :: nat
  fo_lines :: nat
  fo_success :: bool

record 'dt time_output =
  tm_timestamp :: 'dt
  tm_formatted :: string
  tm_format_type :: string
  tm_timezone :: string

record 'dt error_output =
  eo_success :: bool
  eo_error_type :: string
  eo_error_message :: string
  eo_timestamp :: 'dt

text \<open>What a handler returns: the output model whose JSON dump is the text content.\<close>

datatype ('f, 'dt) tool_result =
    CalculateOut "('f, 'dt) calculate_output"
  | WeatherOut "('f, 'dt) weather_output"
  | NoteOut "'dt note_output"
  | TemperatureOut "('f, 'dt) temperature_output"
  | FileReadOut file_read_output
  | TimeOut "'dt time_output"
  | ErrorOut "'dt error_output"

text \<open>
  The code has no error flag of its own: a result is an error result when it is the dump
  of an \<^verbatim>\<open>ErrorOutput\<close>, whose \<^verbatim>\<open>success\<close> field is false.
\<close>

fun is_error :: "('f, 'dt) tool_result \<Rightarrow> bool" where
  "is_error (ErrorOut e) = True"
| "is_error r = False"

subsection \<open>The host: files, clock and library functions\<close>

text \<open>
  The file operations act on a file system \<open>'fs\<close> and may raise; a failed operation may
  still have changed the file system. \<open>now_at n\<close> is what the \<open>n\<close>-th call of
  \<^verbatim>\<open>datetime.now()\<close> returns. \<open>str_validation_error\<close> is \<^verbatim>\<open>str(e)\<close> for the
  \<^verbatim>\<open>ValidationError\<close> of the named model with the given entries.
\<close>

record ('fs, 'dt) host_ops =
  os_open_w :: "'fs \<Rightarrow> string \<Rightarrow> py_exception option \<times> 'fs"
  os_write :: "'fs \<Rightarrow> string \<Rightarrow> string \<Rightarrow> py_exception option \<times> 'fs"
  os_read :: "'fs \<Rightarrow> string \<Rightarrow> py_exception + string"
  now_at :: "nat \<Rightarrow> 'dt"
  isoformat :: "'dt \<Rightarrow> string"
  strftime_human :: "'dt \<Rightarrow> string"
  unix_seconds :: "'dt \<Rightarrow> string"
  utf8_size :: "string \<Rightarrow> nat"
  splitlines_count :: "string \<Rightarrow> nat"
  str_validation_error :: "string \<Rightarrow> verrors \<Rightarrow> string"

text \<open>The file operations a handler issued, in order.\<close>

datatype oscall = OpenWrite string | Write string string | OpenRead string

record 'fs world =
  files :: 'fs
  clock_reads :: nat
  calls :: "oscall list"

text \<open>A computation that may raise and that acts on the world.\<close>

type_synonym ('fs, 'a) io = "'fs world \<Rightarrow> (py_exception + 'a) \<times> 'fs world"

definition io_return :: "'a \<Rightarrow> ('fs, 'a) io" where
  "io_return v w = (Inr v, w)"

definition io_bind :: "('fs, 'a) io \<Rightarrow> ('a \<Rightarrow> ('fs, 'b) io) \<Rightarrow> ('fs, 'b) io" where
  "io_bind m f w = (case m w of (Inl e, w') \<Rightarrow> (Inl e, w') | (Inr v, w') \<Rightarrow> f v w')"

definition datetime_now :: "('fs, 'dt) host_ops \<Rightarrow> ('fs, 'dt) io" where
  "datetime_now H w = (Inr (now_at H (clock_reads w)), w\<lparr>clock_reads := clock_reads w + 1\<rparr>)"

definition open_w :: "('fs, 'dt) host_ops \<Rightarrow> string \<Rightarrow> ('fs, unit) io" where
  "open_w H path w =
     (case os_open_w H (files w) path of
        (r, fs) \<Rightarrow> ((case r of Some e \<Rightarrow> Inl e | None \<Rightarrow> Inr ()),
                    w\<lparr>files := fs, calls := calls w @ [OpenWrite path]\<rparr>))"

definition f_write :: "('fs, 'dt) host_ops \<Rightarrow> string \<Rightarrow> string \<Rightarrow> ('fs, unit) io" where
  "f_write H path text w =
     (case os_write H (files w) path text of
        (r, fs) \<Rightarrow> ((case r of Some e \<Rightarrow> Inl e | None \<Rightarrow> Inr ()),
                    w\<lparr>files := fs, calls := calls w @ [Write path text]\<rparr>))"

definition open_read :: "('fs, 'dt) host_ops \<Rightarrow> string \<Rightarrow> ('fs, string) io" where
  "open_read H path w = (os_read H (files w) path, w\<lparr>calls := calls w @ [OpenRead path]\<rparr>)"

text \<open>Building a model from the arguments raises \<^verbatim>\<open>ValidationError\<close> when validation fails.\<close>

definition construct :: "('fs, 'dt) host_ops \<Rightarrow> string \<Rightarrow> verrors + 'a \<Rightarrow> ('fs, 'a) io" where
  "construct H model v w =
     (case v of
        Inl es \<Rightarrow> (Inl (PyException ''ValidationError'' (str_validation_error H model es)), w)
      | Inr inp \<Rightarrow> (Inr inp, w))"

text \<open>
  \<^verbatim>\<open>ErrorOutput(error_type=..., error_message=...)\<close>: the timestamp is read from the clock.
\<close>

definition ErrorOutput ::
  "('fs, 'dt) host_ops \<Rightarrow> string \<Rightarrow> string \<Rightarrow> 'fs world \<Rightarrow> ('f, 'dt) tool_result \<times> 'fs world" where
  "ErrorOutput H error_type error_message w =
     (ErrorOut \<lparr>eo_success = False, eo_error_type = error_type, eo_error_message = error_message,
                eo_timestamp = now_at H (clock_reads w)\<rparr>,
      w\<lparr>clock_reads := clock_reads w + 1\<rparr>)"

text \<open>\<^verbatim>\<open>try: ... except Exception as e: ErrorOutput(type(e).__name__, str(e))\<close>\<close>

definition try_except ::
  "('fs, 'dt) host_ops \<Rightarrow> ('fs, ('f, 'dt) tool_result) io \<Rightarrow> 'fs world \<Rightarrow> ('f, 'dt) tool_result \<times> 'fs world" where
  "try_except H body w =
     (case body w of
        (Inr out, w') \<Rightarrow> (out, w')
      | (Inl e, w') \<Rightarrow> ErrorOutput H (exc_type e) (exc_msg e) w')"

text \<open>An expression that may raise and does not touch the world.\<close>

definition io_eval :: "py_exception + 'a \<Rightarrow> ('fs, 'a) io" where
  "io_eval r w = (r, w)"

subsection \<open>Tool implementations\<close>

text \<open>
  Each tool is a \<^verbatim>\<open>try\<close> block, named \<open>_try\<close> here, and its exception handlers.
\<close>

text \<open>
  \<^verbatim>\<open>operations[input_data.operation](input_data.a, input_data.b)\<close>: a key that is not in
  the dictionary raises \<^verbatim>\<open>KeyError\<close>, and \<^verbatim>\<open>x / y\<close> raises \<^verbatim>\<open>ZeroDivisionError\<close> when
  \<^verbatim>\<open>y == 0\<close>.
\<close>

definition operations :: "'f float_ops \<Rightarrow> string \<Rightarrow> 'f \<Rightarrow> 'f \<Rightarrow> py_exception + 'f" where
  "operations F operation x y =
     (if operation = ''add'' then Inr (f_add F x y)
      else if operation = ''subtract'' then Inr (f_sub F x y)
      else if operation = ''multiply'' then Inr (f_mul F x y)
      else if operation = ''divide'' then
        (if f_is_zero F y then Inl (PyException ''ZeroDivisionError'' ''float division by zero'')
         else Inr (f_quot F x y))
      else Inl (PyException ''KeyError'' ([CHR 0x27] @ operation @ [CHR 0x27])))"

definition calculate_try ::
  "'f float_ops \<Rightarrow> ('fs, 'dt) host_ops \<Rightarrow> 'f arguments \<Rightarrow> ('fs, ('f, 'dt) tool_result) io" where
  "calculate_try F H arguments =
       io_bind (construct H ''CalculateInput'' (CalculateInput F arguments)) (\<lambda>input_data.
        io_bind (io_eval (operations F (ci_operation input_data) (ci_a input_data) (ci_b input_data))) (\<lambda>result.
        io_bind (datetime_now H) (\<lambda>now.
        io_return (CalculateOut
          \<lparr>co_operation = ci_operation input_data,
           co_operand_a = ci_a input_data,
           co_operand_b = ci_b input_data,
           co_result = result,
           co_formatted = f_repr F (ci_a input_data) @ '' '' @ ci_operation input_data @ '' '' @
                          f_repr F (ci_b input_data) @ '' = '' @ f_repr F result,
           co_timestamp = now\<rparr>))))"

definition calculate ::
  "'f float_ops \<Rightarrow> ('fs, 'dt) host_ops \<Rightarrow> 'f arguments \<Rightarrow> 'fs world \<Rightarrow> ('f, 'dt) tool_result \<times> 'fs world" where
  "calculate F H arguments = try_except H (calculate_try F H arguments)"

definition get_weather_try ::
  "'f float_ops \<Rightarrow> ('fs, 'dt) host_ops \<Rightarrow> 'f arguments \<Rightarrow> ('fs, ('f, 'dt) tool_result) io" where
  "get_weather_try F H arguments =
       io_bind (construct H ''WeatherInput'' (WeatherInput arguments)) (\<lambda>input_data.
        io_bind (datetime_now H) (\<lambda>now.
        io_return (WeatherOut
          \<lparr>wo_city = wi_city input_data,
           wo_temperature = ''72'' @ degree @ ''F'',
           wo_temperature_celsius = Some (f_of_decimal F 222 1),
           wo_condition = ''Sunny'',
           wo_humidity = ''45%'',
           wo_wind = ''10 mph'',
           wo_timestamp = now\<rparr>)))"

definition get_weather ::
  "'f float_ops \<Rightarrow> ('fs, 'dt) host_ops \<Rightarrow> 'f arguments \<Rightarrow> 'fs world \<Rightarrow> ('f, 'dt) tool_result \<times> 'fs world" where
  "get_weather F H arguments = try_except H (get_weather_try F H arguments)"

text \<open>\<^verbatim>\<open>input_data.title.replace(' ', '_')\<close> and the file name built from it.\<close>

definition replace_spaces :: "string \<Rightarrow> string" where
  "replace_spaces s = map (\<lambda>c. if c = CHR '' '' then CHR ''_'' else c) s"

definition note_filename :: "string \<Rightarrow> string" where
  "note_filename title = ''note_'' @ replace_spaces title @ ''.txt''"

text \<open>\<^verbatim>\<open>', '.join(tags)\<close>\<close>

fun join_comma :: "string list \<Rightarrow> string" where
  "join_comma [] = []"
| "join_comma [t] = t"
| "join_comma (t # ts) = t @ '', '' @ join_comma ts"

text \<open>\<^verbatim>\<open>if input_data.tags: f.write(...)\<close>: \<^verbatim>\<open>None\<close> and the empty list write nothing.\<close>

definition write_tags :: "('fs, 'dt) host_ops \<Rightarrow> string \<Rightarrow> string list option \<Rightarrow> ('fs, unit) io" where
  "write_tags H path tags =
     (case tags of
        None \<Rightarrow> io_return ()
      | Some ts \<Rightarrow> if ts = [] then io_return ()
                   else f_write H path (''Tags: '' @ join_comma ts @ [CHR 0x0A]))"

definition save_note_try ::
  "('fs, 'dt) host_ops \<Rightarrow> 'f arguments \<Rightarrow> ('fs, ('f, 'dt) tool_result) io" where
  "save_note_try H arguments =
       io_bind (construct H ''NoteInput'' (NoteInput arguments)) (\<lambda>input_data.
        let filename = note_filename (ni_title input_data) in
        io_bind (open_w H filename) (\<lambda>_.
        io_bind (f_write H filename (''Title: '' @ ni_title input_data @ [CHR 0x0A])) (\<lambda>_.
        io_bind (datetime_now H) (\<lambda>created.
        io_bind (f_write H filename (''Created: '' @ isoformat H created @ [CHR 0x0A])) (\<lambda>_.
        io_bind (write_tags H filename (ni_tags input_data)) (\<lambda>_.
        io_bind (f_write H filename ([CHR 0x0A] @ ni_content input_data)) (\<lambda>_.
        io_bind (datetime_now H) (\<lambda>now.
        io_return (NoteOut
          \<lparr>no_filename = filename,
           no_title = ni_title input_data,
           no_content_length = length (ni_content input_data),
           no_tags = ni_tags input_data,
           no_created_at = now,
           no_success = True,
           no_message = ''Note successfully saved to '' @ filename\<rparr>)))))))))"

definition save_note ::
  "('fs, 'dt) host_ops \<Rightarrow> 'f arguments \<Rightarrow> 'fs world \<Rightarrow> ('f, 'dt) tool_result \<times> 'fs world" where
  "save_note H arguments = try_except H (save_note_try H arguments)"

definition convert_temperature_try ::
  "'f float_ops \<Rightarrow> ('fs, 'dt) host_ops \<Rightarrow> 'f arguments \<Rightarrow> ('fs, ('f, 'dt) tool_result) io" where
  "convert_temperature_try F H arguments =
       io_bind (construct H ''TemperatureInput'' (TemperatureInput F arguments)) (\<lambda>input_data.
        let celsius = f_quot F (f_mul F (f_sub F (ti_temperature_fahrenheit input_data) (f_of_decimal F 32 0))
                                        (f_of_decimal F 50 1))
                               (f_of_decimal F 90 1) in
        io_bind (datetime_now H) (\<lambda>now.
        io_return (TemperatureOut
          \<lparr>to_fahrenheit = ti_temperature_fahrenheit input_data,
           to_celsius = f_round2 F celsius,
           to_formatted = f_repr F (ti_temperature_fahrenheit input_data) @ degree @ ''F = '' @
                          f_fmt2 F celsius @ degree @ ''C'',
           to_timestamp = now\<rparr>)))"

definition convert_temperature ::
  "'f float_ops \<Rightarrow> ('fs, 'dt) host_ops \<Rightarrow> 'f arguments \<Rightarrow> 'fs world \<Rightarrow> ('f, 'dt) tool_result \<times> 'fs world" where
  "convert_temperature F H arguments = try_except H (convert_temperature_try F H arguments)"

text \<open>\<^verbatim>\<open>f"{arguments.get('filename')}"\<close>: a string is inserted as it is.\<close>

definition str_of_arg :: "'f float_ops \<Rightarrow> 'f pyval option \<Rightarrow> string" where
  "str_of_arg F v =
     (case v of None \<Rightarrow> ''None'' | Some (PStr s) \<Rightarrow> s | Some x \<Rightarrow> py_str F x)"

text \<open>
  \<^verbatim>\<open>read_file\<close> has two handlers: \<^verbatim>\<open>except FileNotFoundError\<close>, which writes its own
  message, and \<^verbatim>\<open>except Exception\<close>.
\<close>

definition read_file_try ::
  "'f float_ops \<Rightarrow> ('fs, 'dt) host_ops \<Rightarrow> 'f arguments \<Rightarrow> ('fs, ('f, 'dt) tool_result) io" where
  "read_file_try F H arguments =
       io_bind (construct H ''FileReadInput'' (FileReadInput arguments)) (\<lambda>input_data.
       io_bind (open_read H (fi_filename input_data)) (\<lambda>content.
       io_return (FileReadOut
         \<lparr>fo_filename = fi_filename input_data,
          fo_content = content,
          fo_size_bytes = utf8_size H content,
          fo_lines = splitlines_count H content,
          fo_success = True\<rparr>)))"

definition read_file ::
  "'f float_ops \<Rightarrow> ('fs, 'dt) host_ops \<Rightarrow> 'f arguments \<Rightarrow> 'fs world \<Rightarrow> ('f, 'dt) tool_result \<times> 'fs world" where
  "read_file F H arguments w =
     (case read_file_try F H arguments w of
        (Inr out, w') \<Rightarrow> (out, w')
      | (Inl e, w') \<Rightarrow>
          if exc_type e = ''FileNotFoundError'' then
            ErrorOutput H ''FileNotFoundError''
              (''File '' @ [CHR 0x27] @ str_of_arg F (arguments ''filename'') @ [CHR 0x27] @ '' not found'') w'
          else ErrorOutput H (exc_type e) (exc_msg e) w')"

definition get_time_try ::
  "('fs, 'dt) host_ops \<Rightarrow> 'f arguments \<Rightarrow> ('fs, ('f, 'dt) tool_result) io" where
  "get_time_try H arguments =
       io_bind (construct H ''TimeInput'' (TimeInput arguments)) (\<lambda>input_data.
        io_bind (datetime_now H) (\<lambda>now.
        let formatted = (if ti_format input_data = ''iso'' then isoformat H now
                         else if ti_format input_data = ''human'' then strftime_human H now
                         else unix_seconds H now) in
        io_return (TimeOut
          \<lparr>tm_timestamp = now,
           tm_formatted = formatted,
           tm_format_type = ti_format input_data,
           tm_timezone = ''UTC''\<rparr>)))"

definition get_time ::
  "('fs, 'dt) host_ops \<Rightarrow> 'f arguments \<Rightarrow> 'fs world \<Rightarrow> ('f, 'dt) tool_result \<times> 'fs world" where
  "get_time H arguments = try_except H (get_time_try H arguments)"

subsection \<open>The registry and the invoker\<close>

type_synonym ('f, 'fs, 'dt) handler =
  "'f arguments \<Rightarrow> 'fs world \<Rightarrow> ('f, 'dt) tool_result \<times> 'fs world"

definition TOOL_HANDLERS ::
  "'f float_ops \<Rightarrow> ('fs, 'dt) host_ops \<Rightarrow> string \<rightharpoonup> ('f, 'fs, 'dt) handler" where
  "TOOL_HANDLERS F H =
     map_of [(''calculate'', calculate F H),
             (''get_weather'', get_weather F H),
             (''save_note'', save_note H),
             (''convert_temperature'', convert_temperature F H),
             (''read_file'', read_file F H),
             (''get_time'', get_time H)]"

text \<open>
  \<^verbatim>\<open>call_tool(name, arguments)\<close>, for any registry in the place of \<^verbatim>\<open>TOOL_HANDLERS\<close>.
\<close>

definition call_tool ::
  "('fs, 'dt) host_ops \<Rightarrow> (string \<rightharpoonup> ('f, 'fs, 'dt) handler) \<Rightarrow> string \<Rightarrow> 'f arguments \<Rightarrow>
   'fs world \<Rightarrow> ('f, 'dt) tool_result \<times> 'fs world" where
  "call_tool H registry name arguments w =
     (case registry name of
        Some handler \<Rightarrow> handler arguments w
      | None \<Rightarrow> ErrorOutput H ''UnknownToolError'' (''Unknown tool: '' @ name) w)"

subsection \<open>Observations on the file operations\<close>

text \<open>From the world \<open>w\<close> to the world \<open>w'\<close>, the only file operations are writes to \<open>path\<close>.\<close>

definition only_writes :: "string \<Rightarrow> 'fs world \<Rightarrow> 'fs world \<Rightarrow> bool" where
  "only_writes path w w' =
     (\<exists>new. calls w' = calls w @ new \<and> (\<forall>c \<in> set new. \<exists>text. c = Write path text))"

text \<open>The characters a sanitized title may hold once its spaces are replaced.\<close>

definition filename_chars :: "char set" where
  "filename_chars = set ''abcdefghijklmnopqrstuvwxyzABCDEFGHIJKLMNOPQRSTUVWXYZ0123456789-_''"

subsection \<open>Example host and numbers\<close>

text \<open>Decimal digits of a natural number.\<close>

definition digit_char :: "nat \<Rightarrow> char" where
  "digit_char d = ''0123456789'' ! d"

function show_nat :: "nat \<Rightarrow> string" where
  "show_nat n = (if n < 10 then [digit_char n] else show_nat (n div 10) @ [digit_char (n mod 10)])"
  by pat_completeness auto
termination
  by (relation "measure id") auto

text \<open>
  Numbers for evaluation: decimal fixed point with two places, the integer \<open>x\<close> standing
  for \<open>x / 100\<close>. On integers, and on the sums and comparisons evaluated below, this is
  what Python's doubles give: \<^verbatim>\<open>float(2)\<close> prints as \<^verbatim>\<open>2.0\<close>, and
  \<^verbatim>\<open>2.0 + 3.0 == 5.0\<close>.
\<close>

definition fixed_repr :: "int \<Rightarrow> string" where
  "fixed_repr x =
     (if x < 0 then ''-'' else []) @ show_nat (nat \<bar>x\<bar> div 100) @ ''.'' @
     (if nat \<bar>x\<bar> mod 10 = 0 then [digit_char (nat \<bar>x\<bar> mod 100 div 10)]
      else [digit_char (nat \<bar>x\<bar> mod 100 div 10), digit_char (nat \<bar>x\<bar> mod 10)])"

definition fixed_fmt2 :: "int \<Rightarrow> string" where
  "fixed_fmt2 x =
     (if x < 0 then ''-'' else []) @ show_nat (nat \<bar>x\<bar> div 100) @ ''.'' @
     [digit_char (nat \<bar>x\<bar> mod 100 div 10), digit_char (nat \<bar>x\<bar> mod 10)]"

definition fixed_point :: "int float_ops" where
  "fixed_point =
     \<lparr>f_validate = (\<lambda>v. case v of PInt n \<Rightarrow> Some (100 * n) | PFloat x \<Rightarrow> Some x | _ \<Rightarrow> None),
      f_of_decimal = (\<lambda>m d. if d \<le> 2 then m * 10 ^ (2 - d) else m div 10 ^ (d - 2)),
      f_add = (\<lambda>x y. x + y),
      f_sub = (\<lambda>x y. x - y),
      f_mul = (\<lambda>x y. x * y div 100),
      f_quot = (\<lambda>x y. x * 100 div y),
      f_is_zero = (\<lambda>x. x = 0),
      f_lt = (\<lambda>x y. x < y),
      f_repr = fixed_repr,
      f_round2 = (\<lambda>x. x),
      f_fmt2 = fixed_fmt2,
      py_str = (\<lambda>v. ''?'')\<rparr>"

text \<open>The text of one entry of a validation error, after pydantic's messages.\<close>

fun constraint_text :: "constraint \<Rightarrow> string" where
  "constraint_text Missing = ''Field required''"
| "constraint_text (WrongType t) = ''Input should be a valid '' @ t"
| "constraint_text (PatternMismatch p) = ''String should match pattern '' @ p"
| "constraint_text (TooShort n) = ''String should have at least '' @ show_nat n @ '' characters''"
| "constraint_text (TooLong n) = ''String should have at most '' @ show_nat n @ '' characters''"
| "constraint_text (ValueError m) = ''Value error, '' @ m"

definition render_errors :: "string \<Rightarrow> verrors \<Rightarrow> string" where
  "render_errors model es =
     show_nat (length es) @ '' validation error for '' @ model @
     concat (map (\<lambda>(k, c). [CHR 0x0A] @ k @ '': '' @ constraint_text c) es)"

text \<open>
  A host whose file system is a dictionary from names to contents, and whose clock counts
  seconds. Reading a name that is not there raises \<^verbatim>\<open>FileNotFoundError\<close> with the
  message of the operating system.
\<close>

definition dict_host :: "(string \<rightharpoonup> string, nat) host_ops" where
  "dict_host =
     \<lparr>os_open_w = (\<lambda>fs path. (None, fs(path \<mapsto> []))),
      os_write = (\<lambda>fs path text. (None, fs(path \<mapsto> (case fs path of None \<Rightarrow> text | Some old \<Rightarrow> old @ text)))),
      os_read = (\<lambda>fs path. case fs path of
                   None \<Rightarrow> Inl (PyException ''FileNotFoundError''
                                 (''[Errno 2] No such file or directory: '' @ [CHR 0x27] @ path @ [CHR 0x27]))
                 | Some text \<Rightarrow> Inr text),
      now_at = (\<lambda>n. 1700000000 + n),
      isoformat = show_nat,
      strftime_human = show_nat,
      unix_seconds = show_nat,
      utf8_size = length,
      splitlines_count = (\<lambda>s. length (filter (\<lambda>c. c = CHR 0x0A) s)),
      str_validation_error = render_errors\<rparr>"

text \<open>The same host with a file system that cannot be written to.\<close>

definition readonly_host :: "(string \<rightharpoonup> string, nat) host_ops" where
  "readonly_host =
     dict_host\<lparr>os_open_w := (\<lambda>fs path.
        (Some (PyException ''PermissionError''
                 (''[Errno 13] Permission denied: '' @ [CHR 0x27] @ path @ [CHR 0x27])), fs))\<rparr>"

definition empty_world :: "(string \<rightharpoonup> string) world" where
  "empty_world = \<lparr>files = Map.empty, clock_reads = 0, calls = []\<rparr>"

text \<open>The exceptions the example hosts raise.\<close>

definition denied :: py_exception where
  "denied = PyException ''PermissionError''
              (''[Errno 13] Permission denied: '' @ [CHR 0x27] @ ''note_x.txt'' @ [CHR 0x27])"

definition not_there :: py_exception where
  "not_there = PyException ''FileNotFoundError''
                 (''[Errno 2] No such file or directory: '' @ [CHR 0x27] @ ''missing.txt'' @ [CHR 0x27])"

section \<open>Properties of the orchestration loop\<close>

lemmas fixture_defs = time_call_def bad_call_def loads_stub_def host_stub_def session_start_def
  session_asked_def session_answered_def max_iterations_def

declare while_loop.simps [simp del]

lemma dispatched_ids_append: "dispatched_ids (xs @ ys) = dispatched_ids xs @ dispatched_ids ys"
  by (induction xs rule: dispatched_ids.induct) auto

text \<open>
  The shape of a batch: whatever happens, the tool messages appended are those of the first
  \<open>k\<close> calls, in order; \<open>k\<close> is the whole batch exactly when no call raised.
\<close>

lemma dispatch_batch_shape:
  "dispatch_batch E tcs s = (r, s') \<Longrightarrow>
   \<exists>k new tr. k \<le> length tcs \<and> messages s' = messages s @ new \<and>
     map msg_call_id new = map (\<lambda>tc. Some (tc_id tc)) (take k tcs) \<and>
     trace s' = trace s @ tr \<and> CallModel \<notin> set tr \<and>
     (r = None \<longrightarrow> k = length tcs \<and> dispatched_ids tr = map tc_id tcs) \<and>
     (r \<noteq> None \<longrightarrow> k < length tcs \<and> (dispatched_ids tr = map tc_id (take k tcs) \<or> dispatched_ids tr = map tc_id (take (Suc k) tcs)))"
proof (induction tcs arbitrary: s)
  case Nil
  then show ?case by auto
next
  case (Cons tc tcs)
  show ?case
  proof (cases "json_loads E (tc_arguments tc)")
    case (Inl e)
    with Cons.prems have "r = Some e" "s' = s" by auto
    then show ?thesis by (intro exI[of _ 0] exI[of _ "[]"]) auto
  next
    case (Inr args)
    obtain res w where c: "session_call_tool E (world s) (tc_name tc) args = (res, w)"
      by (cases "session_call_tool E (world s) (tc_name tc) args")
    show ?thesis
    proof (cases res)
      case (Inl e)
      with Cons.prems Inr c have r: "r = Some e"
        and s': "s' = s\<lparr>world := w, trace := trace s @ [PrintToolName (tc_name tc), CallTool (tc_id tc) (tc_name tc)]\<rparr>"
        by auto
      show ?thesis
        apply (rule exI[of _ 0], rule exI[of _ "[]"],
               rule exI[of _ "[PrintToolName (tc_name tc), CallTool (tc_id tc) (tc_name tc)]"])
        using r s' by simp
    next
      case (Inr out)
      let ?s1 = "s\<lparr>messages := messages s @ [ToolMsg (tc_id tc) (tool_text out)],
                    world := w,
                    trace := trace s @ [PrintToolName (tc_name tc), CallTool (tc_id tc) (tc_name tc),
                                        PrintResult (tool_text out)]\<rparr>"
      from Cons.prems \<open>json_loads E (tc_arguments tc) = Inr args\<close> c Inr
      have "dispatch_batch E tcs ?s1 = (r, s')" by simp
      from Cons.IH[OF this] obtain k new tr where
        k: "k \<le> length tcs" and m: "messages s' = messages ?s1 @ new"
        and ids: "map msg_call_id new = map (\<lambda>tc. Some (tc_id tc)) (take k tcs)"
        and t: "trace s' = trace ?s1 @ tr" and nm: "CallModel \<notin> set tr"
        and ok: "r = None \<longrightarrow> k = length tcs \<and> dispatched_ids tr = map tc_id tcs"
        and bad: "r \<noteq> None \<longrightarrow> k < length tcs \<and> (dispatched_ids tr = map tc_id (take k tcs) \<or> dispatched_ids tr = map tc_id (take (Suc k) tcs))"
        by blast
      show ?thesis
        apply (rule exI[of _ "Suc k"], rule exI[of _ "ToolMsg (tc_id tc) (tool_text out) # new"],
               rule exI[of _ "[PrintToolName (tc_name tc), CallTool (tc_id tc) (tc_name tc),
                                        PrintResult (tool_text out)] @ tr"])
        using k m ids t nm ok bad by auto
    qed
  qed
qed

lemma dispatch_batch_roles:
  assumes "dispatch_batch E tcs s = (r, s')"
  shows "\<exists>new. messages s' = messages s @ new \<and> (\<forall>m \<in> set new. role_of m = Tool) \<and> (r = None \<longrightarrow> length new = length tcs)"
proof -
  from dispatch_batch_shape[OF assms] obtain k new where
    k: "k \<le> length tcs" and m: "messages s' = messages s @ new"
    and ids: "map msg_call_id new = map (\<lambda>tc. Some (tc_id tc)) (take k tcs)"
    and ok: "r = None \<longrightarrow> k = length tcs" by blast
  have "role_of x = Tool" if "x \<in> set new" for x
  proof -
    from that ids have "msg_call_id x \<in> set (map (\<lambda>tc. Some (tc_id tc)) (take k tcs))"
      by (metis image_eqI set_map)
    then obtain i where "msg_call_id x = Some i" by auto
    then show ?thesis by (cases x) auto
  qed
  moreover have "length new = length (take k tcs)" using ids by (metis length_map)
  ultimately show ?thesis using m ok by auto
qed

text \<open>
  The loop only appends, \<^verbatim>\<open>iteration\<close> counts the completions requested, and it never
  passes the ceiling.
\<close>

lemma while_loop_shape:
  "while_loop E i s = (r, it, s') \<Longrightarrow>
   i \<le> it \<and> (i \<le> max_iterations \<longrightarrow> it \<le> max_iterations) \<and>
   (\<exists>new tr. messages s' = messages s @ new \<and> fresh_roles new \<and>
      trace s' = trace s @ tr \<and> count_list tr CallModel = it - i)"
proof (induction E i s arbitrary: r it s' rule: while_loop.induct)
  case (1 E iteration s)
  show ?case
  proof (cases "iteration < max_iterations")
    case False
    with "1.prems" show ?thesis
      by (simp add: while_loop.simps[of E iteration s] fresh_roles_def)
  next
    case True
    obtain res w where c: "create E (world s) (messages s) = (res, w)"
      by (cases "create E (world s) (messages s)")
    show ?thesis
    proof (cases res)
      case (Inl e)
      with "1.prems" True c show ?thesis
        by (auto simp add: while_loop.simps[of E iteration s] fresh_roles_def)
    next
      case (Inr am)
      let ?s1 = "s\<lparr>messages := messages s @ [AssistantMsg (am_content am) (am_tool_calls am)],
                         world := w, trace := trace s @ [CallModel]\<rparr>"
      show ?thesis
      proof (cases "requested_calls (am_tool_calls am) = []")
        case True
        with "1.prems" \<open>iteration < max_iterations\<close> c Inr show ?thesis
          apply (simp add: while_loop.simps[of E iteration s] fresh_roles_def)
          apply (cases "am_content am")
          apply auto
          done
      next
        case False
        let ?s1e = "?s1\<lparr>trace := trace ?s1 @ [PrintExecuting (iteration + 1)]\<rparr>"
        obtain rb s2 where d: "dispatch_batch E (requested_calls (am_tool_calls am)) ?s1e = (rb, s2)"
          by (cases "dispatch_batch E (requested_calls (am_tool_calls am)) ?s1e")
        from dispatch_batch_roles[OF d] obtain newb where
          mb: "messages s2 = messages ?s1e @ newb" and rolesb: "\<forall>m \<in> set newb. role_of m = Tool" by blast
        from dispatch_batch_shape[OF d] obtain trb where
          tb: "trace s2 = trace ?s1e @ trb" and nmb: "CallModel \<notin> set trb" by blast
        show ?thesis
        proof (cases rb)
          case (Some e)
          with "1.prems" \<open>iteration < max_iterations\<close> c Inr False d
          have "r = Some e" "it = iteration + 1" "s' = s2"
            by (simp_all add: while_loop.simps[of E iteration s] Let_def)
          then show ?thesis using mb rolesb tb nmb \<open>iteration < max_iterations\<close>
            by (auto simp: fresh_roles_def count_list_0_iff)
        next
          case None
          with "1.prems" \<open>iteration < max_iterations\<close> c Inr False d
          have rec: "while_loop E (iteration + 1) s2 = (r, it, s')"
            by (simp add: while_loop.simps[of E iteration s] Let_def)
          from "1.IH"[OF \<open>iteration < max_iterations\<close> c[symmetric] Inr refl False d[symmetric] None rec]
          obtain new tr where
            "iteration + 1 \<le> it" "it \<le> max_iterations"
            "messages s' = messages s2 @ new" "fresh_roles new"
            "trace s' = trace s2 @ tr" "count_list tr CallModel = it - (iteration + 1)"
            using \<open>iteration < max_iterations\<close> by auto
          then show ?thesis using mb rolesb tb nmb
            by (auto simp: fresh_roles_def count_list_0_iff)
        qed
      qed
    qed
  qed
qed

lemma while_loop_first_raise:
  "i < max_iterations \<Longrightarrow> create E (world s) (messages s) = (Inl e, w) \<Longrightarrow>
   while_loop E i s = (Some e, i + 1, s\<lparr>world := w, trace := trace s @ [CallModel]\<rparr>)"
  by (simp add: while_loop.simps[of E i s])

lemma while_loop_first_ok:
  assumes "i < max_iterations" and c: "create E (world s) (messages s) = (Inr am, w)"
    and run: "while_loop E i s = (r, it, s')"
  shows "\<exists>rest. messages s' = messages s @ AssistantMsg (am_content am) (am_tool_calls am) # rest
           \<and> fresh_roles rest"
proof -
  let ?s1 = "s\<lparr>messages := messages s @ [AssistantMsg (am_content am) (am_tool_calls am)],
                world := w, trace := trace s @ [CallModel]\<rparr>"
  show ?thesis
  proof (cases "requested_calls (am_tool_calls am) = []")
    case True
    with assms show ?thesis
      by (auto simp add: while_loop.simps[of E i s] fresh_roles_def)
  next
    case False
    let ?s1e = "?s1\<lparr>trace := trace ?s1 @ [PrintExecuting (i + 1)]\<rparr>"
    obtain rb s2 where d: "dispatch_batch E (requested_calls (am_tool_calls am)) ?s1e = (rb, s2)"
      by (cases "dispatch_batch E (requested_calls (am_tool_calls am)) ?s1e")
    from dispatch_batch_roles[OF d] obtain newb where
      mb: "messages s2 = messages ?s1e @ newb" and rolesb: "\<forall>m \<in> set newb. role_of m = Tool" by blast
    show ?thesis
    proof (cases rb)
      case (Some e)
      with assms False d have "s' = s2"
        by (simp add: while_loop.simps[of E i s] Let_def)
      then show ?thesis using mb rolesb by (auto simp: fresh_roles_def)
    next
      case None
      with assms False d have "while_loop E (i + 1) s2 = (r, it, s')"
        by (simp add: while_loop.simps[of E i s] Let_def)
      from while_loop_shape[OF this] obtain new where
        "messages s' = messages s2 @ new" "fresh_roles new" by blast
      then show ?thesis using mb rolesb by (auto simp: fresh_roles_def)
    qed
  qed
qed

text \<open>
  A loop that ends without an exception ends either at a response without tool calls or
  at the ceiling, right after a dispatched batch.
\<close>

lemma while_loop_exit:
  "while_loop E i s = (None, it, s') \<Longrightarrow> i < max_iterations \<Longrightarrow>
   messages s' \<noteq> [] \<and>
   ((\<exists>c t. last (messages s') = AssistantMsg c t \<and> requested_calls t = []) \<or>
    (it = max_iterations \<and> role_of (last (messages s')) = Tool))"
proof (induction E i s arbitrary: it s' rule: while_loop.induct)
  case (1 E iteration s)
  note lt = \<open>iteration < max_iterations\<close>
  obtain res w where c: "create E (world s) (messages s) = (res, w)"
    by (cases "create E (world s) (messages s)")
  show ?case
  proof (cases res)
    case (Inl e)
    with "1.prems" c show ?thesis
      by (simp add: while_loop.simps[of E iteration s])
  next
    case (Inr am)
    let ?s1 = "s\<lparr>messages := messages s @ [AssistantMsg (am_content am) (am_tool_calls am)],
                       world := w, trace := trace s @ [CallModel]\<rparr>"
    show ?thesis
    proof (cases "requested_calls (am_tool_calls am) = []")
      case True
      with "1.prems" c Inr show ?thesis
        by (auto simp add: while_loop.simps[of E iteration s])
    next
      case False
      let ?s1e = "?s1\<lparr>trace := trace ?s1 @ [PrintExecuting (iteration + 1)]\<rparr>"
      obtain rb s2 where d: "dispatch_batch E (requested_calls (am_tool_calls am)) ?s1e = (rb, s2)"
        by (cases "dispatch_batch E (requested_calls (am_tool_calls am)) ?s1e")
      show ?thesis
      proof (cases rb)
        case (Some e)
        with "1.prems" c Inr False d show ?thesis
          by (simp add: while_loop.simps[of E iteration s] Let_def)
      next
        case None
        with "1.prems" c Inr False d
        have rec: "while_loop E (iteration + 1) s2 = (None, it, s')"
          by (simp add: while_loop.simps[of E iteration s] Let_def)
        from dispatch_batch_roles[OF d] None obtain newb where
          mb: "messages s2 = messages ?s1e @ newb" and rolesb: "\<forall>m \<in> set newb. role_of m = Tool"
          and lb: "length newb = length (requested_calls (am_tool_calls am))" by blast
        from lb False have ne: "newb \<noteq> []" by auto
        with mb rolesb have last2: "messages s2 \<noteq> [] \<and> role_of (last (messages s2)) = Tool"
          by simp
        show ?thesis
        proof (cases "iteration + 1 < max_iterations")
          case True
          from "1.IH"[OF lt c[symmetric] Inr refl False d[symmetric] None rec True]
          show ?thesis .
        next
          case False
          with rec lt have "it = max_iterations" "s' = s2"
            by (simp_all add: while_loop.simps[of E "Suc iteration" s2])
          with last2 show ?thesis by simp
        qed
      qed
    qed
  qed
qed

text \<open>
  The loop and the specification of a batch agree: a batch that goes through leaves exactly
  its messages, and a batch whose first failure is at some call leaves those of the calls
  before it.
\<close>

lemma dispatches_Cons:
  "dispatches E w (tc # tcs) ms w' \<longleftrightarrow>
   (\<exists>args res w2 ms'. json_loads E (tc_arguments tc) = Inr args \<and>
      session_call_tool E w (tc_name tc) args = (Inr res, w2) \<and>
      ms = ToolMsg (tc_id tc) (tool_text res) # ms' \<and> dispatches E w2 tcs ms' w')"
proof (cases "json_loads E (tc_arguments tc)")
  case (Inl e)
  then show ?thesis by simp
next
  case (Inr args)
  obtain r w2 where c: "session_call_tool E w (tc_name tc) args = (r, w2)"
    by (cases "session_call_tool E w (tc_name tc) args")
  show ?thesis
  proof (cases r)
    case (Inl e)
    with Inr c show ?thesis by simp
  next
    case res: (Inr res)
    with Inr c show ?thesis by (cases ms) auto
  qed
qed

lemma dispatches_ids:
  "dispatches E w tcs ms w' \<Longrightarrow> map msg_call_id ms = map (\<lambda>tc. Some (tc_id tc)) tcs"
proof (induction tcs arbitrary: w ms)
  case Nil
  then show ?case by simp
next
  case (Cons tc tcs)
  from Cons.prems obtain res w2 ms' where
    "ms = ToolMsg (tc_id tc) (tool_text res) # ms'" "dispatches E w2 tcs ms' w'"
    unfolding dispatches_Cons by blast
  with Cons.IH show ?case by simp
qed

lemma batch_trace_ids:
  "dispatches E w tcs ms w' \<Longrightarrow>
   dispatched_ids (batch_trace tcs ms) = map tc_id tcs \<and> CallModel \<notin> set (batch_trace tcs ms)
   \<and> PrintMaxIterations \<notin> set (batch_trace tcs ms)"
proof (induction tcs arbitrary: w ms)
  case Nil
  then show ?case by simp
next
  case (Cons tc tcs)
  from Cons.prems obtain res w2 ms' where
    "ms = ToolMsg (tc_id tc) (tool_text res) # ms'" "dispatches E w2 tcs ms' w'"
    unfolding dispatches_Cons by blast
  with Cons.IH show ?case by simp
qed

lemma dispatch_batch_prefix:
  "dispatches E (world s) pre ms w1 \<Longrightarrow>
   dispatch_batch E (pre @ rest) s =
   dispatch_batch E rest (s\<lparr>messages := messages s @ ms, world := w1,
                            trace := trace s @ batch_trace pre ms\<rparr>)"
proof (induction pre arbitrary: s ms)
  case Nil
  then show ?case by simp
next
  case (Cons tc pre)
  from Cons.prems obtain args res w2 ms' where
    j: "json_loads E (tc_arguments tc) = Inr args"
    and c: "session_call_tool E (world s) (tc_name tc) args = (Inr res, w2)"
    and m: "ms = ToolMsg (tc_id tc) (tool_text res) # ms'"
    and d: "dispatches E w2 pre ms' w1"
    unfolding dispatches_Cons by blast
  let ?s1 = "s\<lparr>messages := messages s @ [ToolMsg (tc_id tc) (tool_text res)],
                world := w2,
                trace := trace s @ [PrintToolName (tc_name tc), CallTool (tc_id tc) (tc_name tc),
                                    PrintResult (tool_text res)]\<rparr>"
  from d have "dispatches E (world ?s1) pre ms' w1" by simp
  from Cons.IH[OF this] j c m show ?case by simp
qed

lemma dispatch_batch_all:
  assumes "dispatches E (world s) tcs ms w'"
  shows "dispatch_batch E tcs s =
           (None, s\<lparr>messages := messages s @ ms, world := w', trace := trace s @ batch_trace tcs ms\<rparr>)"
  using dispatch_batch_prefix[OF assms, of "[]"] by simp

lemma dispatch_batch_parse_raises:
  assumes "dispatches E (world s) pre ms w1" and "parse_raises E tc e"
  shows "dispatch_batch E (pre @ tc # post) s =
           (Some e, s\<lparr>messages := messages s @ ms, world := w1, trace := trace s @ batch_trace pre ms\<rparr>)"
  using dispatch_batch_prefix[OF assms(1), of "tc # post"] assms(2)
  by (simp add: parse_raises_def)

lemma dispatch_batch_call_raises:
  assumes "dispatches E (world s) pre ms w1" and "call_raises E w1 tc e w2"
  shows "dispatch_batch E (pre @ tc # post) s =
           (Some e, s\<lparr>messages := messages s @ ms, world := w2,
                       trace := trace s @ batch_trace pre ms @
                                [PrintToolName (tc_name tc), CallTool (tc_id tc) (tc_name tc)]\<rparr>)"
  using dispatch_batch_prefix[OF assms(1), of "tc # post"] assms(2)
  by (auto simp add: call_raises_def split: sum.splits)

text \<open>Every batch either goes through or has a first call that raises.\<close>

lemma dispatch_cases:
  "(\<exists>ms w'. dispatches E w tcs ms w') \<or>
   (\<exists>pre tc post ms w1 e. tcs = pre @ tc # post \<and> dispatches E w pre ms w1 \<and>
        (parse_raises E tc e \<or> (\<exists>w2. call_raises E w1 tc e w2)))"
proof (induction tcs arbitrary: w)
  case Nil
  then show ?case by simp
next
  case (Cons tc tcs)
  show ?case
  proof (cases "json_loads E (tc_arguments tc)")
    case (Inl e)
    then have "parse_raises E tc e" by (simp add: parse_raises_def)
    moreover have "dispatches E w [] [] w" by simp
    ultimately show ?thesis by (metis append_Nil)
  next
    case (Inr args)
    obtain r w2 where c: "session_call_tool E w (tc_name tc) args = (r, w2)"
      by (cases "session_call_tool E w (tc_name tc) args")
    show ?thesis
    proof (cases r)
      case (Inl e)
      with Inr c have "call_raises E w tc e w2" by (simp add: call_raises_def)
      moreover have "dispatches E w [] [] w" by simp
      ultimately show ?thesis by (metis append_Nil)
    next
      case res: (Inr res)
      have step: "dispatches E w (tc # pre) (ToolMsg (tc_id tc) (tool_text res) # ms) w1"
        if "dispatches E w2 pre ms w1" for pre ms w1
        using that Inr c res unfolding dispatches_Cons by simp
      from Cons.IH[of w2] show ?thesis
      proof
        assume "\<exists>ms w'. dispatches E w2 tcs ms w'"
        then obtain ms w' where "dispatches E w2 tcs ms w'" by blast
        from step[OF this] show ?thesis by blast
      next
        assume "\<exists>pre tc' post ms w1 e. tcs = pre @ tc' # post \<and> dispatches E w2 pre ms w1 \<and>
                  (parse_raises E tc' e \<or> (\<exists>w2. call_raises E w1 tc' e w2))"
        then obtain pre tc' post ms w1 e where
          t: "tcs = pre @ tc' # post" and d: "dispatches E w2 pre ms w1"
          and r: "parse_raises E tc' e \<or> (\<exists>w2. call_raises E w1 tc' e w2)" by blast
        from t have "tc # tcs = (tc # pre) @ tc' # post" by simp
        with step[OF d] r show ?thesis by blast
      qed
    qed
  qed
qed

text \<open>The warning of the ceiling is not printed inside the loop.\<close>

lemma dispatch_batch_no_warning:
  "dispatch_batch E tcs s = (r, s') \<Longrightarrow>
   \<exists>tr. trace s' = trace s @ tr \<and> PrintMaxIterations \<notin> set tr"
proof (induction tcs arbitrary: s)
  case Nil
  then show ?case by simp
next
  case (Cons tc tcs)
  show ?case
  proof (cases "json_loads E (tc_arguments tc)")
    case (Inl e)
    with Cons.prems show ?thesis by simp
  next
    case (Inr args)
    obtain res w where c: "session_call_tool E (world s) (tc_name tc) args = (res, w)"
      by (cases "session_call_tool E (world s) (tc_name tc) args")
    show ?thesis
    proof (cases res)
      case (Inl e)
      with Cons.prems Inr c show ?thesis by auto
    next
      case out: (Inr out)
      let ?s1 = "s\<lparr>messages := messages s @ [ToolMsg (tc_id tc) (tool_text out)],
                    world := w,
                    trace := trace s @ [PrintToolName (tc_name tc), CallTool (tc_id tc) (tc_name tc),
                                        PrintResult (tool_text out)]\<rparr>"
      from Cons.prems Inr c out have "dispatch_batch E tcs ?s1 = (r, s')" by simp
      from Cons.IH[OF this] obtain tr where
        "trace s' = trace ?s1 @ tr" "PrintMaxIterations \<notin> set tr" by blast
      then show ?thesis by simp
    qed
  qed
qed

lemma print_content_no_warning: "PrintMaxIterations \<notin> set (print_content c)"
  by (cases c) auto

lemma while_loop_no_warning:
  "while_loop E i s = (r, it, s') \<Longrightarrow>
   \<exists>tr. trace s' = trace s @ tr \<and> PrintMaxIterations \<notin> set tr"
proof (induction E i s arbitrary: r it s' rule: while_loop.induct)
  case (1 E iteration s)
  show ?case
  proof (cases "iteration < max_iterations")
    case False
    with "1.prems" show ?thesis
      by (simp add: while_loop.simps[of E iteration s])
  next
    case lt: True
    obtain res w where c: "create E (world s) (messages s) = (res, w)"
      by (cases "create E (world s) (messages s)")
    show ?thesis
    proof (cases res)
      case (Inl e)
      with "1.prems" lt c show ?thesis
        by (auto simp add: while_loop.simps[of E iteration s])
    next
      case (Inr am)
      let ?s1 = "s\<lparr>messages := messages s @ [AssistantMsg (am_content am) (am_tool_calls am)],
                         world := w, trace := trace s @ [CallModel]\<rparr>"
      show ?thesis
      proof (cases "requested_calls (am_tool_calls am) = []")
        case True
        with "1.prems" lt c Inr show ?thesis
          by (auto simp add: while_loop.simps[of E iteration s] print_content_no_warning)
      next
        case False
        let ?s1e = "?s1\<lparr>trace := trace ?s1 @ [PrintExecuting (iteration + 1)]\<rparr>"
        obtain rb s2 where d: "dispatch_batch E (requested_calls (am_tool_calls am)) ?s1e = (rb, s2)"
          by (cases "dispatch_batch E (requested_calls (am_tool_calls am)) ?s1e")
        from dispatch_batch_no_warning[OF d] obtain trb where
          tb: "trace s2 = trace ?s1e @ trb" and nwb: "PrintMaxIterations \<notin> set trb" by blast
        show ?thesis
        proof (cases rb)
          case (Some e)
          with "1.prems" lt c Inr False d have "s' = s2"
            by (simp add: while_loop.simps[of E iteration s] Let_def)
          then show ?thesis using tb nwb by simp
        next
          case None
          with "1.prems" lt c Inr False d
          have rec: "while_loop E (iteration + 1) s2 = (r, it, s')"
            by (simp add: while_loop.simps[of E iteration s] Let_def)
          from "1.IH"[OF lt c[symmetric] Inr refl False d[symmetric] None rec]
          obtain tr where "trace s' = trace s2 @ tr" "PrintMaxIterations \<notin> set tr" by blast
          then show ?thesis using tb nwb by simp
        qed
      qed
    qed
  qed
qed

lemmas batch_fixture_defs = fixture_defs weather_call_def session_batch_def parse_raises_def call_raises_def


text \<open>
  C1 (amended). For a batch of tool calls emitted in one assistant response, the loop first
  appends the assistant message and then dispatches the calls in the order the model
  returned them, appending one tool-role message per dispatched call, in that order, each
  tagged with the id of its call, and no completion is requested meanwhile. When no
  dispatch raises, all N calls have their message and the loop goes on to the next
  inference with exactly these messages appended. When the dispatch of a call raises, in
  the parsing of its arguments or in the call of the tool, exactly the calls before it
  have their message, in order, and the loop is left with that exception. One of the two
  always happens.
\<close>

theorem batch_order_preserved:
  assumes lt: "iteration < max_iterations"
    and c: "create E (world s) (messages s) = (Inr am, w)"
    and tcs: "tcs = requested_calls (am_tool_calls am)"
    and ne: "tcs \<noteq> []"
    and s1: "s1 = s\<lparr>messages := messages s @ [AssistantMsg (am_content am) (am_tool_calls am)],
                      world := w,
                      trace := trace s @ [CallModel, PrintExecuting (iteration + 1)]\<rparr>"
  shows "(\<forall>ms w'. dispatches E w tcs ms w' \<longrightarrow>
            dispatch_batch E tcs s1 =
              (None, s1\<lparr>messages := messages s @ AssistantMsg (am_content am) (am_tool_calls am) # ms,
                         world := w', trace := trace s1 @ batch_trace tcs ms\<rparr>) \<and>
            map msg_call_id ms = map (\<lambda>tc. Some (tc_id tc)) tcs \<and>
            dispatched_ids (batch_trace tcs ms) = map tc_id tcs \<and>
            CallModel \<notin> set (batch_trace tcs ms) \<and>
            while_loop E iteration s =
              while_loop E (iteration + 1)
                (s1\<lparr>messages := messages s @ AssistantMsg (am_content am) (am_tool_calls am) # ms,
                    world := w', trace := trace s1 @ batch_trace tcs ms\<rparr>)) \<and>
         (\<forall>pre tc post ms w1 e.
            tcs = pre @ tc # post \<and> dispatches E w pre ms w1 \<and> parse_raises E tc e \<longrightarrow>
            dispatch_batch E tcs s1 =
              (Some e, s1\<lparr>messages := messages s @ AssistantMsg (am_content am) (am_tool_calls am) # ms,
                           world := w1, trace := trace s1 @ batch_trace pre ms\<rparr>) \<and>
            map msg_call_id ms = map (\<lambda>tc. Some (tc_id tc)) pre \<and>
            dispatched_ids (batch_trace pre ms) = map tc_id pre \<and>
            CallModel \<notin> set (batch_trace pre ms) \<and>
            while_loop E iteration s =
              (Some e, iteration + 1,
               s1\<lparr>messages := messages s @ AssistantMsg (am_content am) (am_tool_calls am) # ms,
                   world := w1, trace := trace s1 @ batch_trace pre ms\<rparr>)) \<and>
         (\<forall>pre tc post ms w1 e w2.
            tcs = pre @ tc # post \<and> dispatches E w pre ms w1 \<and> call_raises E w1 tc e w2 \<longrightarrow>
            dispatch_batch E tcs s1 =
              (Some e, s1\<lparr>messages := messages s @ AssistantMsg (am_content am) (am_tool_calls am) # ms,
                           world := w2,
                           trace := trace s1 @ batch_trace pre ms @
                                    [PrintToolName (tc_name tc), CallTool (tc_id tc) (tc_name tc)]\<rparr>) \<and>
            map msg_call_id ms = map (\<lambda>tc. Some (tc_id tc)) pre \<and>
            dispatched_ids (batch_trace pre ms @ [PrintToolName (tc_name tc), CallTool (tc_id tc) (tc_name tc)])
              = map tc_id (pre @ [tc]) \<and>
            CallModel \<notin> set (batch_trace pre ms) \<and>
            while_loop E iteration s =
              (Some e, iteration + 1,
               s1\<lparr>messages := messages s @ AssistantMsg (am_content am) (am_tool_calls am) # ms,
                   world := w2,
                   trace := trace s1 @ batch_trace pre ms @
                            [PrintToolName (tc_name tc), CallTool (tc_id tc) (tc_name tc)]\<rparr>)) \<and>
         ((\<exists>ms w'. dispatches E w tcs ms w') \<or>
          (\<exists>pre tc post ms w1 e. tcs = pre @ tc # post \<and> dispatches E w pre ms w1 \<and>
             (parse_raises E tc e \<or> (\<exists>w2. call_raises E w1 tc e w2))))"
proof -
  have w1: "world s1 = w" and m1: "messages s1 = messages s @ [AssistantMsg (am_content am) (am_tool_calls am)]"
    using s1 by simp_all
  have loop: "while_loop E iteration s =
                (case dispatch_batch E tcs s1 of
                   (Some e, s2) \<Rightarrow> (Some e, iteration + 1, s2)
                 | (None, s2) \<Rightarrow> while_loop E (iteration + 1) s2)"
    using lt c ne tcs s1 by (simp add: while_loop.simps[of E iteration s] Let_def)
  have a: "dispatch_batch E tcs s1 =
              (None, s1\<lparr>messages := messages s @ AssistantMsg (am_content am) (am_tool_calls am) # ms,
                         world := w', trace := trace s1 @ batch_trace tcs ms\<rparr>) \<and>
            map msg_call_id ms = map (\<lambda>tc. Some (tc_id tc)) tcs \<and>
            dispatched_ids (batch_trace tcs ms) = map tc_id tcs \<and>
            CallModel \<notin> set (batch_trace tcs ms) \<and>
            while_loop E iteration s =
              while_loop E (iteration + 1)
                (s1\<lparr>messages := messages s @ AssistantMsg (am_content am) (am_tool_calls am) # ms,
                    world := w', trace := trace s1 @ batch_trace tcs ms\<rparr>)"
    if d: "dispatches E w tcs ms w'" for ms w'
  proof -
    from d w1 have d1: "dispatches E (world s1) tcs ms w'" by simp
    have r: "dispatch_batch E tcs s1 =
              (None, s1\<lparr>messages := messages s @ AssistantMsg (am_content am) (am_tool_calls am) # ms,
                         world := w', trace := trace s1 @ batch_trace tcs ms\<rparr>)"
      using dispatch_batch_all[OF d1] m1 by simp
    from r loop dispatches_ids[OF d] batch_trace_ids[OF d] show ?thesis by simp
  qed
  have b: "dispatch_batch E tcs s1 =
              (Some e, s1\<lparr>messages := messages s @ AssistantMsg (am_content am) (am_tool_calls am) # ms,
                           world := w1, trace := trace s1 @ batch_trace pre ms\<rparr>) \<and>
            map msg_call_id ms = map (\<lambda>tc. Some (tc_id tc)) pre \<and>
            dispatched_ids (batch_trace pre ms) = map tc_id pre \<and>
            CallModel \<notin> set (batch_trace pre ms) \<and>
            while_loop E iteration s =
              (Some e, iteration + 1,
               s1\<lparr>messages := messages s @ AssistantMsg (am_content am) (am_tool_calls am) # ms,
                   world := w1, trace := trace s1 @ batch_trace pre ms\<rparr>)"
    if t: "tcs = pre @ tc # post" and d: "dispatches E w pre ms w1" and p: "parse_raises E tc e"
    for pre tc post ms w1 e
  proof -
    from d w1 have d1: "dispatches E (world s1) pre ms w1" by simp
    have r: "dispatch_batch E tcs s1 =
              (Some e, s1\<lparr>messages := messages s @ AssistantMsg (am_content am) (am_tool_calls am) # ms,
                           world := w1, trace := trace s1 @ batch_trace pre ms\<rparr>)"
      using dispatch_batch_parse_raises[OF d1 p, of post] m1 t by simp
    from r loop dispatches_ids[OF d] batch_trace_ids[OF d] show ?thesis by simp
  qed
  have cc: "dispatch_batch E tcs s1 =
              (Some e, s1\<lparr>messages := messages s @ AssistantMsg (am_content am) (am_tool_calls am) # ms,
                           world := w2,
                           trace := trace s1 @ batch_trace pre ms @
                                    [PrintToolName (tc_name tc), CallTool (tc_id tc) (tc_name tc)]\<rparr>) \<and>
            map msg_call_id ms = map (\<lambda>tc. Some (tc_id tc)) pre \<and>
            dispatched_ids (batch_trace pre ms @ [PrintToolName (tc_name tc), CallTool (tc_id tc) (tc_name tc)])
              = map tc_id (pre @ [tc]) \<and>
            CallModel \<notin> set (batch_trace pre ms) \<and>
            while_loop E iteration s =
              (Some e, iteration + 1,
               s1\<lparr>messages := messages s @ AssistantMsg (am_content am) (am_tool_calls am) # ms,
                   world := w2,
                   trace := trace s1 @ batch_trace pre ms @
                            [PrintToolName (tc_name tc), CallTool (tc_id tc) (tc_name tc)]\<rparr>)"
    if t: "tcs = pre @ tc # post" and d: "dispatches E w pre ms w1" and p: "call_raises E w1 tc e w2"
    for pre tc post ms w1 e w2
  proof -
    from d w1 have d1: "dispatches E (world s1) pre ms w1" by simp
    have r: "dispatch_batch E tcs s1 =
              (Some e, s1\<lparr>messages := messages s @ AssistantMsg (am_content am) (am_tool_calls am) # ms,
                           world := w2,
                           trace := trace s1 @ batch_trace pre ms @
                                    [PrintToolName (tc_name tc), CallTool (tc_id tc) (tc_name tc)]\<rparr>)"
      using dispatch_batch_call_raises[OF d1 p, of post] m1 t by simp
    from r loop dispatches_ids[OF d] batch_trace_ids[OF d] show ?thesis
      by (simp add: dispatched_ids_append)
  qed
  from a b cc dispatch_cases[of E w tcs] show ?thesis by blast
qed

theorem batch_order_preserved_witness:
  "dispatch_batch env_pair [time_call, weather_call] (session_batch [time_call, weather_call]) =
     (None, (session_batch [time_call, weather_call])
            \<lparr>messages := messages session_asked @
                 [AssistantMsg None (Some [time_call, weather_call]),
                  ToolMsg ''call_1'' ''ok'', ToolMsg ''call_2'' ''ok''],
              world := 1,
              trace := trace (session_batch [time_call, weather_call]) @
                       batch_trace [time_call, weather_call]
                         [ToolMsg ''call_1'' ''ok'', ToolMsg ''call_2'' ''ok'']\<rparr>) \<and>
   dispatched_ids (batch_trace [time_call, weather_call] [ToolMsg ''call_1'' ''ok'', ToolMsg ''call_2'' ''ok''])
     = [''call_1'', ''call_2''] \<and>
   dispatch_batch env_badargs [time_call, bad_call] (session_batch [time_call, bad_call]) =
     (Some (PyException ''JSONDecodeError'' ''Expecting property name enclosed in double quotes''),
      (session_batch [time_call, bad_call])
            \<lparr>messages := messages session_asked @
                 [AssistantMsg None (Some [time_call, bad_call]), ToolMsg ''call_1'' ''ok''],
              world := 1,
              trace := trace (session_batch [time_call, bad_call]) @
                       batch_trace [time_call] [ToolMsg ''call_1'' ''ok'']\<rparr>) \<and>
   dispatch_batch env_flaky [time_call, weather_call] (session_batch [time_call, weather_call]) =
     (Some (PyException ''McpError'' ''Connection closed''),
      (session_batch [time_call, weather_call])
            \<lparr>messages := messages session_asked @
                 [AssistantMsg None (Some [time_call, weather_call]), ToolMsg ''call_1'' ''ok''],
              world := 1,
              trace := trace (session_batch [time_call, weather_call]) @
                       batch_trace [time_call] [ToolMsg ''call_1'' ''ok''] @
                       [PrintToolName ''get_weather'', CallTool ''call_2'' ''get_weather'']\<rparr>)"
proof -
  have lt: "(0::nat) < max_iterations" by (simp add: max_iterations_def)
  have ne: "[time_call, weather_call] \<noteq> []" "[time_call, bad_call] \<noteq> []" by simp_all
  have c1: "create env_pair (world session_asked) (messages session_asked) =
              (Inr \<lparr>am_content = None, am_tool_calls = Some [time_call, weather_call]\<rparr>, 1)"
    by (simp add: env_pair_def fixture_defs)
  have t1: "[time_call, weather_call] =
              requested_calls (am_tool_calls \<lparr>am_content = None, am_tool_calls = Some [time_call, weather_call]\<rparr>)"
    by simp
  have s1: "session_batch [time_call, weather_call] =
              session_asked\<lparr>messages := messages session_asked @
                  [AssistantMsg (am_content \<lparr>am_content = None, am_tool_calls = Some [time_call, weather_call]\<rparr>)
                                (am_tool_calls \<lparr>am_content = None, am_tool_calls = Some [time_call, weather_call]\<rparr>)],
                world := 1, trace := trace session_asked @ [CallModel, PrintExecuting (0 + 1)]\<rparr>"
    by (simp add: session_batch_def)
  have d1: "dispatches env_pair 1 [time_call, weather_call]
              [ToolMsg ''call_1'' ''ok'', ToolMsg ''call_2'' ''ok''] 1"
    by (simp add: env_pair_def batch_fixture_defs)
  have c2: "create env_badargs (world session_asked) (messages session_asked) =
              (Inr \<lparr>am_content = None, am_tool_calls = Some [time_call, bad_call]\<rparr>, 1)"
    by (simp add: env_badargs_def fixture_defs)
  have t2: "[time_call, bad_call] =
              requested_calls (am_tool_calls \<lparr>am_content = None, am_tool_calls = Some [time_call, bad_call]\<rparr>)"
    by simp
  have s2: "session_batch [time_call, bad_call] =
              session_asked\<lparr>messages := messages session_asked @
                  [AssistantMsg (am_content \<lparr>am_content = None, am_tool_calls = Some [time_call, bad_call]\<rparr>)
                                (am_tool_calls \<lparr>am_content = None, am_tool_calls = Some [time_call, bad_call]\<rparr>)],
                world := 1, trace := trace session_asked @ [CallModel, PrintExecuting (0 + 1)]\<rparr>"
    by (simp add: session_batch_def)
  have d2: "[time_call, bad_call] = [time_call] @ bad_call # [] \<and>
            dispatches env_badargs 1 [time_call] [ToolMsg ''call_1'' ''ok''] 1 \<and>
            parse_raises env_badargs bad_call
              (PyException ''JSONDecodeError'' ''Expecting property name enclosed in double quotes'')"
    by (simp add: env_badargs_def batch_fixture_defs)
  have c3: "create env_flaky (world session_asked) (messages session_asked) =
              (Inr \<lparr>am_content = None, am_tool_calls = Some [time_call, weather_call]\<rparr>, 1)"
    by (simp add: env_flaky_def fixture_defs)
  have d3: "[time_call, weather_call] = [time_call] @ weather_call # [] \<and>
            dispatches env_flaky 1 [time_call] [ToolMsg ''call_1'' ''ok''] 1 \<and>
            call_raises env_flaky 1 weather_call (PyException ''McpError'' ''Connection closed'') 1"
    by (simp add: env_flaky_def batch_fixture_defs)
  note A = batch_order_preserved[OF lt c1 t1 ne(1) s1, THEN conjunct1, rule_format, OF d1]
  note B = batch_order_preserved[OF lt c2 t2 ne(2) s2, THEN conjunct2, THEN conjunct1, rule_format, OF d2]
  note C = batch_order_preserved[OF lt c3 t1 ne(1) s1, THEN conjunct2, THEN conjunct2, THEN conjunct1,
             rule_format, OF d3]
  from A B C show ?thesis
    by (simp add: weather_call_def time_call_def)
qed

text \<open>
  The claim as stated fails when a dispatch raises: the model returns two calls, the second
  with arguments that \<^verbatim>\<open>json.loads\<close> rejects; the turn ends with one tool message for a
  batch of two calls, and nothing is removed since the last message is a tool message.
\<close>

theorem batch_order_counterexample:
  "dispatch_batch env_badargs [time_call, bad_call]
     (session_asked\<lparr>messages := messages session_asked @ [AssistantMsg None (Some [time_call, bad_call])],
                     world := 1, trace := trace session_asked @ [CallModel, PrintExecuting 1]\<rparr>)
   = (Some (PyException ''JSONDecodeError'' ''Expecting property name enclosed in double quotes''),
      \<lparr>messages = [SystemMsg ''You are a helpful autonomous assistant'', UserMsg ''hi'',
                   AssistantMsg None (Some [time_call, bad_call]), ToolMsg ''call_1'' ''ok''],
       world = 1,
       trace = [CallModel, PrintExecuting 1, PrintToolName ''get_time'', CallTool ''call_1'' ''get_time'',
                PrintResult ''ok'']\<rparr>)
   \<and> map_sum id messages (run_turn env_badargs ''hi'' session_start) =
       Inr [SystemMsg ''You are a helpful autonomous assistant'', UserMsg ''hi'',
            AssistantMsg None (Some [time_call, bad_call]), ToolMsg ''call_1'' ''ok'']"
  by (simp add: env_badargs_def fixture_defs run_turn_def on_error_def while_loop.simps)

text \<open>
  C2 (amended). When a turn fails at its first model inference, the conversation after the
  abort equals the conversation before the user message was appended. When it fails later,
  nothing is removed: the conversation after the abort is the conversation at the failure,
  which is the earlier conversation followed by the user message, the first assistant
  message and the assistant and tool messages appended after it. In both cases the
  messages of earlier turns are unchanged and still the beginning of the conversation.
\<close>

theorem rollback_first_inference:
  assumes run: "while_loop E 0 (s\<lparr>messages := messages s @ [UserMsg u]\<rparr>) = (Some e, it, s1)"
  shows "\<exists>s'. run_turn E u s = Inr s' \<and>
           (isl (fst (create E (world s) (messages s @ [UserMsg u]))) \<longrightarrow>
              messages s1 = messages s @ [UserMsg u] \<and> messages s' = messages s) \<and>
           (\<not> isl (fst (create E (world s) (messages s @ [UserMsg u]))) \<longrightarrow>
              messages s' = messages s1 \<and>
              (\<exists>am w rest. create E (world s) (messages s @ [UserMsg u]) = (Inr am, w) \<and>
                 messages s1 = messages s @ UserMsg u # AssistantMsg (am_content am) (am_tool_calls am) # rest \<and>
                 fresh_roles rest))"
proof -
  let ?s0 = "s\<lparr>messages := messages s @ [UserMsg u]\<rparr>"
  obtain res w where c: "create E (world ?s0) (messages ?s0) = (res, w)"
    by (cases "create E (world ?s0) (messages ?s0)")
  have lt: "0 < max_iterations" by (simp add: max_iterations_def)
  show ?thesis
  proof (cases res)
    case (Inl e0)
    from while_loop_first_raise[OF lt c[unfolded Inl]] run
    have "s1 = ?s0\<lparr>world := w, trace := trace ?s0 @ [CallModel]\<rparr>" by simp
    with run c Inl show ?thesis
      by (simp add: run_turn_def on_error_def)
  next
    case (Inr am)
    from while_loop_first_ok[OF lt c[unfolded Inr] run] obtain rest where
      m: "messages s1 = messages ?s0 @ AssistantMsg (am_content am) (am_tool_calls am) # rest"
      and fr: "fresh_roles rest" by blast
    have nu: "role_of (last (messages s1)) \<noteq> User"
      using m fr by (cases rest rule: rev_cases) (auto simp: fresh_roles_def)
    have "run_turn E u s = Inr (s1\<lparr>messages := messages s1, trace := trace s1 @ [PrintError e]\<rparr>)"
      using run m nu by (simp add: run_turn_def on_error_def)
    moreover have "\<not> isl (fst (create E (world s) (messages s @ [UserMsg u])))"
      using c Inr by simp
    moreover have "\<exists>am w rest. create E (world s) (messages s @ [UserMsg u]) = (Inr am, w) \<and>
                 messages s1 = messages s @ UserMsg u # AssistantMsg (am_content am) (am_tool_calls am) # rest \<and>
                 fresh_roles rest"
      using c Inr m fr by auto
    ultimately show ?thesis by simp
  qed
qed

theorem rollback_first_inference_witness:
  "isl (fst (create env_down (world session_start) (messages session_start @ [UserMsg ''hi'']))) \<and>
   map_sum id messages (run_turn env_down ''hi'' session_start) = Inr (messages session_start) \<and>
   \<not> isl (fst (create env_drop (world session_start) (messages session_start @ [UserMsg ''hi'']))) \<and>
   map_sum id messages (run_turn env_drop ''hi'' session_start) = Inr (messages session_answered)"
proof -
  have h: "while_loop env_down 0 (session_start\<lparr>messages := messages session_start @ [UserMsg ''hi'']\<rparr>) =
     (Some (PyException ''APIConnectionError'' ''Connection error.''), 1,
      session_asked\<lparr>world := 0, trace := [CallModel]\<rparr>)"
    by (simp add: env_down_def fixture_defs while_loop.simps)
  have i: "isl (fst (create env_down (world session_start) (messages session_start @ [UserMsg ''hi''])))"
    by (simp add: env_down_def)
  have h2: "while_loop env_drop 0 (session_start\<lparr>messages := messages session_start @ [UserMsg ''hi'']\<rparr>) =
     (Some (PyException ''APIConnectionError'' ''Connection error.''), 2,
      session_answered\<lparr>trace := trace session_answered @ [CallModel]\<rparr>)"
    by (simp add: env_drop_def fixture_defs while_loop.simps)
  have i2: "\<not> isl (fst (create env_drop (world session_start) (messages session_start @ [UserMsg ''hi''])))"
    by (simp add: env_drop_def session_start_def)
  from rollback_first_inference[OF h] rollback_first_inference[OF h2] i i2 show ?thesis
    by auto
qed

text \<open>
  The claim as stated fails when the endpoint fails on the second inference of the turn:
  the user message, the assistant message and the tool message all stay.
\<close>

theorem rollback_counterexample:
  "while_loop env_drop 0 (session_start\<lparr>messages := messages session_start @ [UserMsg ''hi'']\<rparr>) =
     (Some (PyException ''APIConnectionError'' ''Connection error.''), 2,
      session_answered\<lparr>trace := trace session_answered @ [CallModel]\<rparr>) \<and>
   map_sum id messages (run_turn env_drop ''hi'' session_start) =
     Inr (messages session_start @
          [UserMsg ''hi'', AssistantMsg None (Some [time_call]), ToolMsg ''call_1'' ''ok'']) \<and>
   map_sum id messages (run_turn env_drop ''hi'' session_start) \<noteq> Inr (messages session_start)"
  by (simp add: env_drop_def fixture_defs run_turn_def on_error_def while_loop.simps)

text \<open>
  C3 (amended). In one user turn the loop requests at most 10 completions (the count is the
  final value of \<^verbatim>\<open>iteration\<close>) and the turn always ends. When the loop ends without an
  exception while the last response still requested tool calls (the conversation ends with
  their tool messages), exactly 10 completions were requested and the turn ends by
  printing the maximum-iterations warning. When the loop is left by an exception, at the
  ceiling or before, the turn ends in the error handler with the error notice, and the
  warning is not printed.
\<close>

theorem iteration_ceiling:
  assumes run: "while_loop E 0 (s\<lparr>messages := messages s @ [UserMsg u]\<rparr>) = (r, it, s1)"
  shows "it \<le> 10 \<and>
         (\<exists>s' tr. run_turn E u s = Inr s' \<and> trace s' = trace s @ tr \<and> count_list tr CallModel = it) \<and>
         (r = None \<and> role_of (last (messages s1)) = Tool \<longrightarrow>
            it = 10 \<and> run_turn E u s = Inr (s1\<lparr>trace := trace s1 @ [PrintMaxIterations]\<rparr>)) \<and>
         (\<forall>e. r = Some e \<longrightarrow>
            (\<exists>ms tr. on_error (messages s1) = Inr ms \<and>
               run_turn E u s = Inr (s1\<lparr>messages := ms, trace := trace s @ tr @ [PrintError e]\<rparr>) \<and>
               trace s1 = trace s @ tr \<and> PrintMaxIterations \<notin> set tr))"
proof -
  from while_loop_shape[OF run] obtain new tr where
    it: "it \<le> max_iterations"
    and m: "messages s1 = (messages s @ [UserMsg u]) @ new"
    and t: "trace s1 = trace s @ tr" and cnt: "count_list tr CallModel = it"
    by auto
  from m have ne: "messages s1 \<noteq> []" by simp
  have a: "it \<le> 10" using it by (simp add: max_iterations_def)
  have b: "\<exists>s' tr. run_turn E u s = Inr s' \<and> trace s' = trace s @ tr \<and> count_list tr CallModel = it"
  proof (cases r)
    case None
    show ?thesis
    proof (cases "it \<ge> max_iterations")
      case True
      with None run t cnt show ?thesis
        by (intro exI[of _ "s1\<lparr>trace := trace s1 @ [PrintMaxIterations]\<rparr>"] exI[of _ "tr @ [PrintMaxIterations]"])
           (simp add: run_turn_def)
    next
      case False
      with None run t cnt show ?thesis
        by (intro exI[of _ s1] exI[of _ tr]) (simp add: run_turn_def)
    qed
  next
    case (Some e)
    with run ne t cnt show ?thesis
      by (intro exI[of _ "s1\<lparr>messages := (if role_of (last (messages s1)) = User then butlast (messages s1) else messages s1),
                              trace := trace s1 @ [PrintError e]\<rparr>"] exI[of _ "tr @ [PrintError e]"])
         (simp add: run_turn_def on_error_def)
  qed
  have c: "it = 10 \<and> run_turn E u s = Inr (s1\<lparr>trace := trace s1 @ [PrintMaxIterations]\<rparr>)"
    if "r = None" and tl: "role_of (last (messages s1)) = Tool"
  proof -
    from run that have "while_loop E 0 (s\<lparr>messages := messages s @ [UserMsg u]\<rparr>) = (None, it, s1)"
      by simp
    from while_loop_exit[OF this] tl have "it = max_iterations"
      by (auto simp: max_iterations_def)
    with run \<open>r = None\<close> show ?thesis by (simp add: run_turn_def max_iterations_def)
  qed
  have d: "\<exists>ms tr. on_error (messages s1) = Inr ms \<and>
               run_turn E u s = Inr (s1\<lparr>messages := ms, trace := trace s @ tr @ [PrintError e]\<rparr>) \<and>
               trace s1 = trace s @ tr \<and> PrintMaxIterations \<notin> set tr"
    if "r = Some e" for e
  proof -
    from while_loop_no_warning[OF run] obtain tr' where
      t': "trace s1 = trace s @ tr'" and nw: "PrintMaxIterations \<notin> set tr'" by auto
    let ?ms = "if role_of (last (messages s1)) = User then butlast (messages s1) else messages s1"
    have "on_error (messages s1) = Inr ?ms" using ne by (simp add: on_error_def)
    moreover have "run_turn E u s = Inr (s1\<lparr>messages := ?ms, trace := trace s @ tr' @ [PrintError e]\<rparr>)"
      using run that ne t' by (simp add: run_turn_def on_error_def)
    ultimately show ?thesis using t' nw by blast
  qed
  from a b c d show ?thesis by blast
qed

theorem iteration_ceiling_witness:
  "fst (while_loop env_looping 0 session_asked) = None \<and>
   role_of (last (messages (snd (snd (while_loop env_looping 0 session_asked))))) = Tool \<and>
   fst (snd (while_loop env_looping 0 session_asked)) = 10 \<and>
   map_sum id (\<lambda>s. last (trace s)) (run_turn env_looping ''hi'' session_start) = Inr PrintMaxIterations \<and>
   fst (while_loop env_late 0 session_asked) = Some (PyException ''McpError'' ''Connection closed'') \<and>
   map_sum id (\<lambda>s. last (trace s)) (run_turn env_late ''hi'' session_start) =
     Inr (PrintError (PyException ''McpError'' ''Connection closed''))"
proof -
  have h: "while_loop env_looping 0 (session_start\<lparr>messages := messages session_start @ [UserMsg ''hi'']\<rparr>) =
     (fst (while_loop env_looping 0 session_asked), fst (snd (while_loop env_looping 0 session_asked)),
      snd (snd (while_loop env_looping 0 session_asked)))"
    by (simp add: session_asked_def)
  have n: "fst (while_loop env_looping 0 session_asked) = None"
    by (simp add: env_looping_def fixture_defs while_loop.simps)
  have t: "role_of (last (messages (snd (snd (while_loop env_looping 0 session_asked))))) = Tool"
    by (simp add: env_looping_def fixture_defs while_loop.simps)
  have h2: "while_loop env_late 0 (session_start\<lparr>messages := messages session_start @ [UserMsg ''hi'']\<rparr>) =
     (fst (while_loop env_late 0 session_asked), fst (snd (while_loop env_late 0 session_asked)),
      snd (snd (while_loop env_late 0 session_asked)))"
    by (simp add: session_asked_def)
  have n2: "fst (while_loop env_late 0 session_asked) = Some (PyException ''McpError'' ''Connection closed'')"
    by (simp add: env_late_def fixture_defs while_loop.simps)
  from iteration_ceiling[OF h] iteration_ceiling[OF h2] n t n2 show ?thesis
    by auto
qed

text \<open>
  The claim as stated fails when the ceiling is reached with the model still requesting a
  tool and the dispatch of that tenth batch raises: ten completions were requested, the
  last assistant message requests a tool, and the turn ends with the error notice; the
  warning is never printed.
\<close>

theorem iteration_ceiling_counterexample:
  "fst (while_loop env_late 0 session_asked) = Some (PyException ''McpError'' ''Connection closed'') \<and>
   fst (snd (while_loop env_late 0 session_asked)) = 10 \<and>
   last (messages (snd (snd (while_loop env_late 0 session_asked)))) = AssistantMsg None (Some [time_call]) \<and>
   map_sum id (\<lambda>s. (count_list (trace s) CallModel, PrintMaxIterations \<in> set (trace s), last (trace s)))
     (run_turn env_late ''hi'' session_start) =
     Inr (10, False, PrintError (PyException ''McpError'' ''Connection closed''))"
  by (simp add: env_late_def fixture_defs run_turn_def on_error_def while_loop.simps)

text \<open>
  C8. On a turn-level error the handler removes at most one message, and only when the
  most recent message has role user; when the most recent message is an assistant or tool
  message appended during the failed turn, nothing is removed. Earlier messages are left
  as they were in both cases.
\<close>

theorem error_handler_frame:
  assumes run: "while_loop E 0 (s\<lparr>messages := messages s @ [UserMsg u]\<rparr>) = (Some e, it, s1)"
  shows "\<exists>s'. run_turn E u s = Inr s' \<and> messages s1 \<noteq> [] \<and>
           on_error (messages s1) = Inr (messages s') \<and>
           length (messages s1) - length (messages s') \<le> 1 \<and>
           (role_of (last (messages s1)) = User \<longrightarrow> messages s1 = messages s' @ [last (messages s1)]) \<and>
           (role_of (last (messages s1)) \<noteq> User \<longrightarrow> messages s' = messages s1)"
proof -
  from while_loop_shape[OF run] obtain new where
    m: "messages s1 = (messages s @ [UserMsg u]) @ new" by auto
  then have ne: "messages s1 \<noteq> []" by simp
  let ?ms = "if role_of (last (messages s1)) = User then butlast (messages s1) else messages s1"
  have "run_turn E u s = Inr (s1\<lparr>messages := ?ms, trace := trace s1 @ [PrintError e]\<rparr>)"
    using run ne by (simp add: run_turn_def on_error_def)
  then show ?thesis using ne
    by (intro exI[of _ "s1\<lparr>messages := ?ms, trace := trace s1 @ [PrintError e]\<rparr>"])
       (auto simp add: on_error_def)
qed

theorem error_handler_frame_witness:
  "while_loop env_drop 0 session_asked =
     (Some (PyException ''APIConnectionError'' ''Connection error.''), 2,
      session_answered\<lparr>trace := trace session_answered @ [CallModel]\<rparr>) \<and>
   role_of (last (messages session_answered)) \<noteq> User \<and>
   map_sum id messages (run_turn env_drop ''hi'' session_start) = Inr (messages session_answered)"
proof -
  have h: "while_loop env_drop 0 (session_start\<lparr>messages := messages session_start @ [UserMsg ''hi'']\<rparr>) =
     (Some (PyException ''APIConnectionError'' ''Connection error.''), 2,
      session_answered\<lparr>trace := trace session_answered @ [CallModel]\<rparr>)"
    by (simp add: env_drop_def fixture_defs while_loop.simps)
  have r: "role_of (last (messages session_answered)) \<noteq> User"
    by (simp add: session_answered_def)
  from error_handler_frame[OF h] r h show ?thesis
    by (auto simp add: session_asked_def)
qed

section \<open>Properties of the tool server\<close>

lemmas io_defs = io_bind_def io_return_def io_eval_def construct_def try_except_def ErrorOutput_def
  datetime_now_def open_w_def f_write_def open_read_def

lemmas input_defs = CalculateInput_def WeatherInput_def NoteInput_def TemperatureInput_def
  FileReadInput_def TimeInput_def required_str_def required_float_def check_length_def
  validate_division_def validate_temperature_def validate_filename_def sanitize_title_def
  optional_tags_def operation_pattern_def format_pattern_def

lemmas handler_defs = calculate_def calculate_try_def get_weather_def get_weather_try_def
  save_note_def save_note_try_def convert_temperature_def convert_temperature_try_def
  read_file_def read_file_try_def get_time_def get_time_try_def call_tool_def TOOL_HANDLERS_def
  operations_def

lemmas host_defs = dict_host_def readonly_host_def fixed_point_def empty_world_def render_errors_def
  fixed_repr_def fixed_fmt2_def digit_char_def


lemma try_except_raise:
  "body w = (Inl e, w') \<Longrightarrow> try_except H body w = ErrorOutput H (exc_type e) (exc_msg e) w'"
  by (simp add: try_except_def)

lemma try_except_return:
  "body w = (Inr out, w') \<Longrightarrow> try_except H body w = (out, w')"
  by (simp add: try_except_def)

lemma io_bind_construct_Inl:
  "v = Inl es \<Longrightarrow>
   io_bind (construct H model v) f w =
     (Inl (PyException ''ValidationError'' (str_validation_error H model es)), w)"
  by (simp add: io_bind_def construct_def)

lemma io_bind_construct_Inr:
  "v = Inr inp \<Longrightarrow> io_bind (construct H model v) f w = f inp w"
  by (simp add: io_bind_def construct_def)

lemma registry_lookup:
  "TOOL_HANDLERS F H ''calculate'' = Some (calculate F H)"
  "TOOL_HANDLERS F H ''get_weather'' = Some (get_weather F H)"
  "TOOL_HANDLERS F H ''save_note'' = Some (save_note H)"
  "TOOL_HANDLERS F H ''convert_temperature'' = Some (convert_temperature F H)"
  "TOOL_HANDLERS F H ''read_file'' = Some (read_file F H)"
  "TOOL_HANDLERS F H ''get_time'' = Some (get_time H)"
  by (simp_all add: TOOL_HANDLERS_def)

lemma registry_unknown:
  "name \<notin> set [''calculate'', ''get_weather'', ''save_note'', ''convert_temperature'',
                 ''read_file'', ''get_time''] \<Longrightarrow> TOOL_HANDLERS F H name = None"
  by (simp add: TOOL_HANDLERS_def)

text \<open>
  C6. For every tool name that is not in the registry and every argument payload, the
  invoker returns an error result whose type is \<^verbatim>\<open>UnknownToolError\<close> and whose message is
  \<^verbatim>\<open>Unknown tool: \<close> followed by the name, whatever the registry holds; it returns a
  result and raises nothing. The names other than the six tools are not in the registry of
  the server.
\<close>

theorem unknown_tool_is_error:
  "(registry name = None \<longrightarrow>
      call_tool H registry name arguments w =
        (ErrorOut \<lparr>eo_success = False, eo_error_type = ''UnknownToolError'',
                   eo_error_message = ''Unknown tool: '' @ name,
                   eo_timestamp = now_at H (clock_reads w)\<rparr>,
         w\<lparr>clock_reads := clock_reads w + 1\<rparr>) \<and>
      is_error (fst (call_tool H registry name arguments w))) \<and>
   (name \<notin> set [''calculate'', ''get_weather'', ''save_note'', ''convert_temperature'',
                  ''read_file'', ''get_time''] \<longrightarrow> TOOL_HANDLERS F H name = None)"
  by (simp add: call_tool_def ErrorOutput_def registry_unknown del: set_simps)

theorem unknown_tool_is_error_witness:
  "TOOL_HANDLERS fixed_point dict_host ''delete_everything'' = None \<and>
   call_tool dict_host (TOOL_HANDLERS fixed_point dict_host) ''delete_everything'' Map.empty empty_world =
     (ErrorOut \<lparr>eo_success = False, eo_error_type = ''UnknownToolError'',
                eo_error_message = ''Unknown tool: delete_everything'',
                eo_timestamp = 1700000000\<rparr>,
      empty_world\<lparr>clock_reads := 1\<rparr>)"
proof -
  have n: "''delete_everything'' \<notin> set [''calculate'', ''get_weather'', ''save_note'',
             ''convert_temperature'', ''read_file'', ''get_time'']" by simp
  have u: "TOOL_HANDLERS fixed_point dict_host ''delete_everything'' = None"
    using unknown_tool_is_error[where registry = "TOOL_HANDLERS fixed_point dict_host"
            and name = "''delete_everything''" and H = dict_host and F = fixed_point
            and w = empty_world and arguments = Map.empty] n by blast
  from unknown_tool_is_error[where registry = "TOOL_HANDLERS fixed_point dict_host"
            and name = "''delete_everything''" and H = dict_host and F = fixed_point
            and w = empty_world and arguments = Map.empty] u
  show ?thesis by (simp add: dict_host_def empty_world_def)
qed

text \<open>
  C10. When \<^verbatim>\<open>get_time\<close> is called without a \<^verbatim>\<open>format\<close> argument, validation succeeds
  with the format \<^verbatim>\<open>iso\<close>, and the output holds the time read from the clock, its
  \<^verbatim>\<open>isoformat()\<close> rendering as \<^verbatim>\<open>formatted\<close>, and the format type \<^verbatim>\<open>iso\<close>.
\<close>

theorem get_time_default_iso:
  "arguments ''format'' = None \<Longrightarrow>
   TimeInput arguments = Inr \<lparr>ti_format = ''iso''\<rparr> \<and>
   get_time H arguments w =
     (TimeOut \<lparr>tm_timestamp = now_at H (clock_reads w),
               tm_formatted = isoformat H (now_at H (clock_reads w)),
               tm_format_type = ''iso'',
               tm_timezone = ''UTC''\<rparr>,
      w\<lparr>clock_reads := clock_reads w + 1\<rparr>) \<and>
   call_tool H (TOOL_HANDLERS F H) ''get_time'' arguments w = get_time H arguments w"
  by (simp add: TimeInput_def get_time_def get_time_try_def try_except_def io_bind_def construct_def
      datetime_now_def io_return_def call_tool_def registry_lookup)

theorem get_time_default_iso_witness:
  "(Map.empty :: int arguments) ''format'' = None \<and>
   call_tool dict_host (TOOL_HANDLERS fixed_point dict_host) ''get_time'' Map.empty empty_world =
     (TimeOut \<lparr>tm_timestamp = 1700000000, tm_formatted = isoformat dict_host 1700000000,
               tm_format_type = ''iso'', tm_timezone = ''UTC''\<rparr>,
      empty_world\<lparr>clock_reads := 1\<rparr>)"
proof -
  have h: "(Map.empty :: int arguments) ''format'' = None" by simp
  from get_time_default_iso[OF h, where H = dict_host and w = empty_world and F = fixed_point] h show ?thesis
    by (simp add: dict_host_def empty_world_def)
qed

text \<open>What validation leaves of a title, and which file operations \<^verbatim>\<open>save_note\<close> issues.\<close>

lemma set_strip: "set (strip s) \<subseteq> set s"
proof -
  have "set (strip s) = set (dropWhile py_isspace (rev (dropWhile py_isspace s)))"
    by (simp add: strip_def)
  also have "\<dots> \<subseteq> set (rev (dropWhile py_isspace s))" by (rule set_dropWhileD[THEN subsetI])
  also have "\<dots> \<subseteq> set s" using set_dropWhileD by fastforce
  finally show ?thesis .
qed

lemma sanitize_title_Inr:
  "sanitize_title v = Inr t \<Longrightarrow> t = strip (filter (\<lambda>c. c \<in> safe_chars) v) \<and> t \<noteq> [] \<and> set t \<subseteq> safe_chars"
proof -
  assume a: "sanitize_title v = Inr t"
  then have t: "t = strip (filter (\<lambda>c. c \<in> safe_chars) v)" and ne: "t \<noteq> []"
    by (auto simp add: sanitize_title_def Let_def split: if_splits)
  have "set t \<subseteq> set (filter (\<lambda>c. c \<in> safe_chars) v)" unfolding t by (rule set_strip)
  then have "set t \<subseteq> safe_chars" by auto
  with t ne show ?thesis by simp
qed

lemma NoteInput_title:
  assumes "NoteInput arguments = Inr inp"
  shows "\<exists>raw. arguments ''title'' = Some (PStr raw) \<and> sanitize_title raw = Inr (ni_title inp)"
proof -
  let ?title = "and_then (and_then (required_str arguments ''title'') (check_length ''title'' 1 (Some 100)))
                           sanitize_title"
  from assms obtain t where t: "?title = Inr t" and eq: "ni_title inp = t"
    by (auto simp add: NoteInput_def Let_def split: sum.splits)
  from t obtain raw where r: "required_str arguments ''title'' = Inr raw"
    by (cases "required_str arguments ''title''") auto
  then have a: "arguments ''title'' = Some (PStr raw)"
    by (auto simp add: required_str_def split: option.splits pyval.splits)
  from t r have "sanitize_title raw = Inr t"
    by (cases "check_length ''title'' 1 (Some 100) raw")
       (auto simp add: check_length_def split: if_splits)
  with a eq show ?thesis by blast
qed

lemma safe_chars_split: "safe_chars = insert (CHR '' '') filename_chars"
  by (auto simp add: safe_chars_def filename_chars_def)

lemma space_not_filename_char: "CHR '' '' \<notin> filename_chars" "CHR ''_'' \<in> filename_chars"
  "CHR ''/'' \<notin> filename_chars" "CHR ''.'' \<notin> filename_chars"
  by (simp_all add: filename_chars_def)

lemma replace_spaces_chars: "set t \<subseteq> safe_chars \<Longrightarrow> set (replace_spaces t) \<subseteq> filename_chars"
  using space_not_filename_char(2) by (auto simp add: replace_spaces_def safe_chars_split)

lemma split_slash_no_slash: "CHR ''/'' \<notin> set s \<Longrightarrow> split_slash acc s = [rev acc @ s]"
  by (induction s arbitrary: acc) auto

lemma count_list_notin: "x \<notin> set xs \<Longrightarrow> count_list xs x = 0"
  by (induction xs) auto

lemma only_writes_refl: "only_writes p w w"
  by (simp add: only_writes_def)

lemma only_writes_trans: "only_writes p w w1 \<Longrightarrow> only_writes p w1 w2 \<Longrightarrow> only_writes p w w2"
  by (fastforce simp add: only_writes_def)

lemma only_writes_calls: "calls w' = calls w \<Longrightarrow> only_writes p w w'"
  by (simp add: only_writes_def)

lemma only_writes_bind:
  assumes "\<And>w. only_writes p w (snd (m w))" and "\<And>v w. only_writes p w (snd (f v w))"
  shows "only_writes p w (snd (io_bind m f w))"
proof (cases "m w")
  case (Pair r w1)
  with assms(1)[of w] have a: "only_writes p w w1" by simp
  show ?thesis
  proof (cases r)
    case (Inl e)
    with Pair a show ?thesis by (simp add: io_bind_def)
  next
    case (Inr v)
    with Pair have "io_bind m f w = f v w1" by (simp add: io_bind_def)
    with a assms(2)[of w1 v] show ?thesis by (auto intro: only_writes_trans)
  qed
qed

lemma only_writes_f_write: "only_writes p w (snd (f_write H p t w))"
  by (cases "os_write H (files w) p t") (simp add: f_write_def only_writes_def)

lemma only_writes_now: "only_writes p w (snd (datetime_now H w))"
  by (simp add: datetime_now_def only_writes_def)

lemma only_writes_return: "only_writes p w (snd (io_return v w))"
  by (simp add: io_return_def only_writes_def)

lemma only_writes_tags: "only_writes p w (snd (write_tags H p tags w))"
  by (cases tags) (simp_all add: write_tags_def only_writes_return only_writes_f_write)

lemma only_writes_ErrorOutput: "only_writes p w (snd (ErrorOutput H t m w))"
  by (simp add: ErrorOutput_def only_writes_def)

lemma only_writes_try:
  assumes "only_writes p w (snd (body w))"
  shows "only_writes p w (snd (try_except H body w))"
proof (cases "body w")
  case (Pair r w1)
  show ?thesis
  proof (cases r)
    case (Inl e)
    with Pair assms only_writes_ErrorOutput[where p = p and w = w1 and H = H and t = "exc_type e" and m = "exc_msg e"] show ?thesis
      by (auto simp add: try_except_def intro: only_writes_trans)
  next
    case (Inr v)
    with Pair assms show ?thesis by (simp add: try_except_def)
  qed
qed

lemma save_note_calls:
  assumes v: "NoteInput arguments = Inr inp"
  shows "\<exists>w1. calls w1 = calls w @ [OpenWrite (note_filename (ni_title inp))] \<and>
              only_writes (note_filename (ni_title inp)) w1 (snd (save_note H arguments w))"
proof -
  let ?fn = "note_filename (ni_title inp)"
  let ?rest = "\<lambda>_::unit.
        io_bind (f_write H ?fn (''Title: '' @ ni_title inp @ [CHR 0x0A])) (\<lambda>_.
        io_bind (datetime_now H) (\<lambda>created.
        io_bind (f_write H ?fn (''Created: '' @ isoformat H created @ [CHR 0x0A])) (\<lambda>_.
        io_bind (write_tags H ?fn (ni_tags inp)) (\<lambda>_.
        io_bind (f_write H ?fn ([CHR 0x0A] @ ni_content inp)) (\<lambda>_.
        io_bind (datetime_now H) (\<lambda>now.
        io_return (NoteOut
          \<lparr>no_filename = ?fn,
           no_title = ni_title inp,
           no_content_length = length (ni_content inp),
           no_tags = ni_tags inp,
           no_created_at = now,
           no_success = True,
           no_message = ''Note successfully saved to '' @ ?fn\<rparr>)))))))"
  have body: "save_note_try H arguments w = io_bind (open_w H ?fn) ?rest w"
    using v by (simp add: save_note_try_def io_bind_construct_Inr Let_def)
  have rest: "only_writes ?fn w' (snd (?rest u w'))" for u w'
    by (intro only_writes_bind only_writes_f_write only_writes_now only_writes_tags only_writes_return)
  obtain r fs where o: "os_open_w H (files w) ?fn = (r, fs)"
    by (cases "os_open_w H (files w) ?fn")
  let ?w1 = "w\<lparr>files := fs, calls := calls w @ [OpenWrite ?fn]\<rparr>"
  have c1: "calls ?w1 = calls w @ [OpenWrite ?fn]" by simp
  have "only_writes ?fn ?w1 (snd (save_note_try H arguments w))"
  proof (cases r)
    case None
    with o have e1: "io_bind (open_w H ?fn) ?rest w = ?rest () ?w1"
      by (simp add: io_bind_def open_w_def)
    show ?thesis unfolding body e1 by (rule rest)
  next
    case (Some e)
    with o have e2: "io_bind (open_w H ?fn) ?rest w = (Inl e, ?w1)"
      by (simp add: io_bind_def open_w_def)
    show ?thesis unfolding body e2 by (simp add: only_writes_refl)
  qed
  moreover have "only_writes ?fn (snd (save_note_try H arguments w)) (snd (save_note H arguments w))"
  proof (cases "save_note_try H arguments w")
    case (Pair r' w2)
    then show ?thesis
      by (cases r') (simp_all add: save_note_def try_except_def only_writes_refl only_writes_ErrorOutput)
  qed
  ultimately have "only_writes ?fn ?w1 (snd (save_note H arguments w))"
    by (rule only_writes_trans)
  with c1 show ?thesis by blast
qed

text \<open>
  C9. For every input that \<^verbatim>\<open>NoteInput\<close> accepts, the title kept is the title given with
  the characters outside the safe set removed and the white space at both ends stripped,
  and the file \<^verbatim>\<open>save_note\<close> opens and writes to is \<^verbatim>\<open>note_\<close>, that title with each space
  replaced by an underscore, \<^verbatim>\<open>.txt\<close>. Between prefix and extension the name holds only
  ASCII letters, digits, \<^verbatim>\<open>-\<close> and \<^verbatim>\<open>_\<close>; the name has no path separator, is a single
  path component, is not \<^verbatim>\<open>..\<close>, and its only dot is the one of the extension. The first
  file operation of the handler opens that name for writing and all later ones write to it.
\<close>

theorem note_filename_safe:
  assumes v: "NoteInput arguments = Inr inp"
  shows "(\<exists>raw. arguments ''title'' = Some (PStr raw) \<and>
               ni_title inp = strip (filter (\<lambda>c. c \<in> safe_chars) raw)) \<and>
         note_filename (ni_title inp) =
           ''note_'' @ map (\<lambda>c. if c = CHR '' '' then CHR ''_'' else c) (ni_title inp) @ ''.txt'' \<and>
         set (map (\<lambda>c. if c = CHR '' '' then CHR ''_'' else c) (ni_title inp)) \<subseteq> filename_chars \<and>
         CHR ''/'' \<notin> set (note_filename (ni_title inp)) \<and>
         split_slash [] (note_filename (ni_title inp)) = [note_filename (ni_title inp)] \<and>
         note_filename (ni_title inp) \<noteq> ''..'' \<and>
         count_list (note_filename (ni_title inp)) (CHR ''.'') = 1 \<and>
         (\<exists>w1. calls w1 = calls w @ [OpenWrite (note_filename (ni_title inp))] \<and>
               only_writes (note_filename (ni_title inp)) w1 (snd (save_note H arguments w)))"
proof -
  from NoteInput_title[OF v] obtain raw where
    a: "arguments ''title'' = Some (PStr raw)" and s: "sanitize_title raw = Inr (ni_title inp)" by blast
  from sanitize_title_Inr[OF s] have
    t: "ni_title inp = strip (filter (\<lambda>c. c \<in> safe_chars) raw)" and sub: "set (ni_title inp) \<subseteq> safe_chars"
    by blast+
  from replace_spaces_chars[OF sub] have fc: "set (replace_spaces (ni_title inp)) \<subseteq> filename_chars" .
  have noslash: "CHR ''/'' \<notin> set (replace_spaces (ni_title inp))"
    and nodot: "CHR ''.'' \<notin> set (replace_spaces (ni_title inp))"
    using fc space_not_filename_char by auto
  have ns: "CHR ''/'' \<notin> set (note_filename (ni_title inp))"
    using noslash by (simp add: note_filename_def)
  have one: "count_list (note_filename (ni_title inp)) (CHR ''.'') = 1"
    using count_list_notin[OF nodot] by (simp add: note_filename_def)
  have comp: "split_slash [] (note_filename (ni_title inp)) = [note_filename (ni_title inp)]"
    using split_slash_no_slash[OF ns, of "[]"] by simp
  have nd: "note_filename (ni_title inp) \<noteq> ''..''"
    by (simp add: note_filename_def)
  have fn: "note_filename (ni_title inp) =
           ''note_'' @ map (\<lambda>c. if c = CHR '' '' then CHR ''_'' else c) (ni_title inp) @ ''.txt''"
    by (simp add: note_filename_def replace_spaces_def)
  from a t fn fc ns comp nd one save_note_calls[OF v, of w H] show ?thesis
    by (simp add: replace_spaces_def)
qed

theorem note_filename_safe_witness:
  "NoteInput [''title'' \<mapsto> PStr ''../my note!'', ''content'' \<mapsto> PStr ''y'' :: int pyval] =
     Inr \<lparr>ni_title = ''my note'', ni_content = ''y'', ni_tags = None\<rparr> \<and>
   note_filename ''my note'' = ''note_my_note.txt'' \<and>
   split_slash [] ''note_my_note.txt'' = [''note_my_note.txt''] \<and>
   (\<exists>w1. calls w1 = [OpenWrite ''note_my_note.txt''] \<and>
      only_writes ''note_my_note.txt'' w1
        (snd (save_note dict_host [''title'' \<mapsto> PStr ''../my note!'', ''content'' \<mapsto> PStr ''y'' :: int pyval]
                empty_world)))"
proof -
  have h: "NoteInput [''title'' \<mapsto> PStr ''../my note!'', ''content'' \<mapsto> PStr ''y'' :: int pyval] =
     Inr \<lparr>ni_title = ''my note'', ni_content = ''y'', ni_tags = None\<rparr>"
    by (simp add: input_defs safe_chars_def strip_def py_isspace_def)
  have c: "calls empty_world = []" by (simp add: empty_world_def)
  have sel: "ni_title \<lparr>ni_title = ''my note'', ni_content = ''y'', ni_tags = None\<rparr> = ''my note''"
    by simp
  have fn: "note_filename ''my note'' = ''note_my_note.txt''"
    by (simp add: note_filename_def replace_spaces_def)
  note T = note_filename_safe[OF h, where w = empty_world and H = dict_host, unfolded sel fn c append_Nil]
  show ?thesis
    by (intro conjI h fn
          T[THEN conjunct2, THEN conjunct2, THEN conjunct2, THEN conjunct2, THEN conjunct1]
          T[THEN conjunct2, THEN conjunct2, THEN conjunct2, THEN conjunct2, THEN conjunct2,
            THEN conjunct2, THEN conjunct2])
qed

text \<open>What the \<^verbatim>\<open>try\<close> blocks of \<^verbatim>\<open>read_file\<close> and \<^verbatim>\<open>save_note\<close> do when a file operation raises.\<close>

lemma FileReadInput_filename:
  assumes "FileReadInput arguments = Inr fi"
  shows "arguments ''filename'' = Some (PStr (fi_filename fi))"
proof -
  from assms obtain v where
    t: "and_then (and_then (required_str arguments ''filename'') (check_length ''filename'' 1 None))
                 validate_filename = Inr v" and eq: "fi_filename fi = v"
    by (auto simp add: FileReadInput_def split: sum.splits)
  from t obtain raw where r: "required_str arguments ''filename'' = Inr raw"
    by (cases "required_str arguments ''filename''") auto
  then have a: "arguments ''filename'' = Some (PStr raw)"
    by (auto simp add: required_str_def split: option.splits pyval.splits)
  from t r have "validate_filename raw = Inr v"
    by (cases "check_length ''filename'' 1 None raw")
       (auto simp add: check_length_def split: if_splits)
  then have "v = raw"
    by (auto simp add: validate_filename_def Let_def split: if_splits)
  with a eq show ?thesis by simp
qed

lemma read_file_try_raise:
  assumes "FileReadInput arguments = Inr fi" and "os_read H (files w) (fi_filename fi) = Inl e"
  shows "read_file_try F H arguments w = (Inl e, w\<lparr>calls := calls w @ [OpenRead (fi_filename fi)]\<rparr>)"
  using assms by (simp add: read_file_try_def construct_def io_bind_def open_read_def)

lemma save_note_try_open_raise:
  assumes "NoteInput arguments = Inr ni"
    and "os_open_w H (files w) (note_filename (ni_title ni)) = (Some e, fs)"
  shows "save_note_try H arguments w =
           (Inl e, w\<lparr>files := fs, calls := calls w @ [OpenWrite (note_filename (ni_title ni))]\<rparr>)"
  using assms by (simp add: save_note_try_def construct_def Let_def io_bind_def open_w_def)

text \<open>
  C7 (amended). When the \<^verbatim>\<open>try\<close> block of a tool raises, the handler catches the
  exception and returns an error result whose type is the class name of the exception;
  nothing propagates to the caller. The message is \<^verbatim>\<open>str(e)\<close> as it is, in every tool,
  except for a \<^verbatim>\<open>FileNotFoundError\<close> in \<^verbatim>\<open>read_file\<close>, whose message is replaced
  by \<^verbatim>\<open>File '<filename>' not found\<close>. On valid input this is what happens when
  \<^verbatim>\<open>open\<close> raises in \<^verbatim>\<open>save_note\<close> and when opening or reading raises in
  \<^verbatim>\<open>read_file\<close>.
\<close>

theorem handler_exception_caught:
  "(calculate_try F H arguments w = (Inl e, w') \<longrightarrow>
      calculate F H arguments w = ErrorOutput H (exc_type e) (exc_msg e) w') \<and>
   (get_weather_try F H arguments w = (Inl e, w') \<longrightarrow>
      get_weather F H arguments w = ErrorOutput H (exc_type e) (exc_msg e) w') \<and>
   (save_note_try H arguments w = (Inl e, w') \<longrightarrow>
      save_note H arguments w = ErrorOutput H (exc_type e) (exc_msg e) w') \<and>
   (convert_temperature_try F H arguments w = (Inl e, w') \<longrightarrow>
      convert_temperature F H arguments w = ErrorOutput H (exc_type e) (exc_msg e) w') \<and>
   (get_time_try H arguments w = (Inl e, w') \<longrightarrow>
      get_time H arguments w = ErrorOutput H (exc_type e) (exc_msg e) w') \<and>
   (read_file_try F H arguments w = (Inl e, w') \<and> exc_type e \<noteq> ''FileNotFoundError'' \<longrightarrow>
      read_file F H arguments w = ErrorOutput H (exc_type e) (exc_msg e) w') \<and>
   (FileReadInput arguments = Inr fi \<and> read_file_try F H arguments w = (Inl e, w') \<and>
    exc_type e = ''FileNotFoundError'' \<longrightarrow>
      read_file F H arguments w =
        ErrorOutput H ''FileNotFoundError''
          (''File '' @ [CHR 0x27] @ fi_filename fi @ [CHR 0x27] @ '' not found'') w') \<and>
   (NoteInput arguments = Inr ni \<and>
    os_open_w H (files w) (note_filename (ni_title ni)) = (Some e, fs) \<longrightarrow>
      save_note_try H arguments w =
        (Inl e, w\<lparr>files := fs, calls := calls w @ [OpenWrite (note_filename (ni_title ni))]\<rparr>)) \<and>
   (FileReadInput arguments = Inr fi \<and> os_read H (files w) (fi_filename fi) = Inl e \<longrightarrow>
      read_file_try F H arguments w = (Inl e, w\<lparr>calls := calls w @ [OpenRead (fi_filename fi)]\<rparr>)) \<and>
   ErrorOutput H t m w' =
     (ErrorOut \<lparr>eo_success = False, eo_error_type = t, eo_error_message = m,
                eo_timestamp = now_at H (clock_reads w')\<rparr> :: ('f, 'dt) tool_result,
      w'\<lparr>clock_reads := clock_reads w' + 1\<rparr>)"
proof -
  have a: "calculate_try F H arguments w = (Inl e, w') \<longrightarrow>
      calculate F H arguments w = ErrorOutput H (exc_type e) (exc_msg e) w'"
    by (simp add: calculate_def try_except_raise)
  have b: "get_weather_try F H arguments w = (Inl e, w') \<longrightarrow>
      get_weather F H arguments w = ErrorOutput H (exc_type e) (exc_msg e) w'"
    by (simp add: get_weather_def try_except_raise)
  have c: "save_note_try H arguments w = (Inl e, w') \<longrightarrow>
      save_note H arguments w = (ErrorOutput H (exc_type e) (exc_msg e) w')"
    by (simp add: save_note_def try_except_raise)
  have d: "convert_temperature_try F H arguments w = (Inl e, w') \<longrightarrow>
      convert_temperature F H arguments w = ErrorOutput H (exc_type e) (exc_msg e) w'"
    by (simp add: convert_temperature_def try_except_raise)
  have e: "get_time_try H arguments w = (Inl e, w') \<longrightarrow>
      get_time H arguments w = (ErrorOutput H (exc_type e) (exc_msg e) w')"
    by (simp add: get_time_def try_except_raise)
  have f: "read_file_try F H arguments w = (Inl e, w') \<and> exc_type e \<noteq> ''FileNotFoundError'' \<longrightarrow>
      read_file F H arguments w = ErrorOutput H (exc_type e) (exc_msg e) w'"
    by (simp add: read_file_def)
  have g: "FileReadInput arguments = Inr fi \<and> read_file_try F H arguments w = (Inl e, w') \<and>
    exc_type e = ''FileNotFoundError'' \<longrightarrow>
      read_file F H arguments w =
        ErrorOutput H ''FileNotFoundError''
          (''File '' @ [CHR 0x27] @ fi_filename fi @ [CHR 0x27] @ '' not found'') w'"
  proof (intro impI, elim conjE)
    assume v: "FileReadInput arguments = Inr fi"
      and r: "read_file_try F H arguments w = (Inl e, w')"
      and t: "exc_type e = ''FileNotFoundError''"
    from FileReadInput_filename[OF v] have "str_of_arg F (arguments ''filename'') = fi_filename fi"
      by (simp add: str_of_arg_def)
    with r t show "read_file F H arguments w =
        ErrorOutput H ''FileNotFoundError''
          (''File '' @ [CHR 0x27] @ fi_filename fi @ [CHR 0x27] @ '' not found'') w'"
      by (simp add: read_file_def)
  qed
  have h: "NoteInput arguments = Inr ni \<and>
    os_open_w H (files w) (note_filename (ni_title ni)) = (Some e, fs) \<longrightarrow>
      save_note_try H arguments w =
        (Inl e,
         w\<lparr>files := fs, calls := calls w @ [OpenWrite (note_filename (ni_title ni))]\<rparr>)"
    using save_note_try_open_raise[of arguments ni H w e fs] by blast
  have i: "FileReadInput arguments = Inr fi \<and> os_read H (files w) (fi_filename fi) = Inl e \<longrightarrow>
      read_file_try F H arguments w = (Inl e, w\<lparr>calls := calls w @ [OpenRead (fi_filename fi)]\<rparr>)"
    using read_file_try_raise[of arguments fi H w e F] by blast
  have j: "ErrorOutput H t m w' =
     (ErrorOut \<lparr>eo_success = False, eo_error_type = t, eo_error_message = m,
                eo_timestamp = now_at H (clock_reads w')\<rparr> :: ('f, 'dt) tool_result,
      w'\<lparr>clock_reads := clock_reads w' + 1\<rparr>)"
    by (simp add: ErrorOutput_def)
  show ?thesis by (intro conjI a b c d e f g h i j)
qed

theorem handler_exception_caught_witness:
  "save_note readonly_host [''title'' \<mapsto> PStr ''x'', ''content'' \<mapsto> PStr ''y'' :: int pyval] empty_world =
     (ErrorOut \<lparr>eo_success = False, eo_error_type = ''PermissionError'',
                eo_error_message = exc_msg denied, eo_timestamp = 1700000000\<rparr>,
      empty_world\<lparr>files := Map.empty, calls := [OpenWrite ''note_x.txt''], clock_reads := 1\<rparr>) \<and>
   read_file fixed_point dict_host [''filename'' \<mapsto> PStr ''missing.txt''] empty_world =
     (ErrorOut \<lparr>eo_success = False, eo_error_type = ''FileNotFoundError'',
                eo_error_message = ''File '' @ [CHR 0x27] @ ''missing.txt'' @ [CHR 0x27] @ '' not found'',
                eo_timestamp = 1700000000\<rparr>,
      empty_world\<lparr>calls := [OpenRead ''missing.txt''], clock_reads := 1\<rparr>)"
proof -
  let ?note = "[''title'' \<mapsto> PStr ''x'', ''content'' \<mapsto> PStr ''y'' :: int pyval]"
  let ?ni = "\<lparr>ni_title = ''x'', ni_content = ''y'', ni_tags = None\<rparr>"
  let ?w1 = "empty_world\<lparr>files := Map.empty, calls := calls empty_world @ [OpenWrite (note_filename (ni_title ?ni))]\<rparr>"
  have v1: "NoteInput ?note = Inr ?ni"
    by (simp add: input_defs safe_chars_def strip_def py_isspace_def)
  have o1: "os_open_w readonly_host (files empty_world) (note_filename (ni_title ?ni)) = (Some denied, Map.empty)"
    by (simp add: readonly_host_def dict_host_def empty_world_def note_filename_def replace_spaces_def denied_def)
  note T1 = handler_exception_caught[where H = readonly_host and arguments = ?note and w = empty_world
      and e = denied and ni = ?ni and fs = Map.empty and w' = ?w1
      and t = "exc_type denied" and m = "exc_msg denied"]
  have b1: "save_note_try readonly_host ?note empty_world = (Inl denied, ?w1)"
    using T1 v1 o1 by blast
  have r1: "save_note readonly_host ?note empty_world = ErrorOutput readonly_host (exc_type denied) (exc_msg denied) ?w1"
    using T1 b1 by blast
  have e1: "ErrorOutput readonly_host (exc_type denied) (exc_msg denied) ?w1 =
     (ErrorOut \<lparr>eo_success = False, eo_error_type = exc_type denied, eo_error_message = exc_msg denied,
                eo_timestamp = now_at readonly_host (clock_reads ?w1)\<rparr>,
      ?w1\<lparr>clock_reads := clock_reads ?w1 + 1\<rparr>)"
    using T1 by blast
  let ?file = "[''filename'' \<mapsto> PStr ''missing.txt'' :: int pyval]"
  let ?fi = "\<lparr>fi_filename = ''missing.txt''\<rparr>"
  let ?w2 = "empty_world\<lparr>calls := calls empty_world @ [OpenRead (fi_filename ?fi)]\<rparr>"
  let ?msg = "''File '' @ [CHR 0x27] @ fi_filename ?fi @ [CHR 0x27] @ '' not found''"
  have v2: "FileReadInput ?file = Inr ?fi"
    by (simp add: input_defs path_name_def)
  have o2: "os_read dict_host (files empty_world) (fi_filename ?fi) = Inl not_there"
    by (simp add: dict_host_def empty_world_def not_there_def)
  have ty: "exc_type not_there = ''FileNotFoundError''" by (simp add: not_there_def)
  note T2 = handler_exception_caught[where F = fixed_point and H = dict_host and arguments = ?file
      and w = empty_world and e = not_there and fi = ?fi and w' = ?w2
      and t = "''FileNotFoundError''" and m = ?msg]
  have b2: "read_file_try fixed_point dict_host ?file empty_world = (Inl not_there, ?w2)"
    using T2 v2 o2 by blast
  have r2: "read_file fixed_point dict_host ?file empty_world = ErrorOutput dict_host ''FileNotFoundError'' ?msg ?w2"
    using T2 v2 b2 ty by blast
  have e2: "ErrorOutput dict_host ''FileNotFoundError'' ?msg ?w2 =
     (ErrorOut \<lparr>eo_success = False, eo_error_type = ''FileNotFoundError'', eo_error_message = ?msg,
                eo_timestamp = now_at dict_host (clock_reads ?w2)\<rparr>,
      ?w2\<lparr>clock_reads := clock_reads ?w2 + 1\<rparr>)"
    using T2 by blast
  show ?thesis
    unfolding r1 e1 r2 e2
    by (simp add: denied_def readonly_host_def dict_host_def empty_world_def note_filename_def replace_spaces_def)
qed

text \<open>
  The claim as stated fails for a file that does not exist: the message of the exception
  is the one of the operating system, the message returned is the handler's own.
\<close>

theorem handler_message_counterexample:
  "os_read dict_host (files empty_world) ''missing.txt'' = Inl not_there \<and>
   exc_msg not_there = ''[Errno 2] No such file or directory: '' @ [CHR 0x27] @ ''missing.txt'' @ [CHR 0x27] \<and>
   fst (read_file fixed_point dict_host [''filename'' \<mapsto> PStr ''missing.txt''] empty_world) =
     ErrorOut \<lparr>eo_success = False, eo_error_type = ''FileNotFoundError'',
               eo_error_message = ''File '' @ [CHR 0x27] @ ''missing.txt'' @ [CHR 0x27] @ '' not found'',
               eo_timestamp = 1700000000\<rparr> \<and>
   ''File '' @ [CHR 0x27] @ ''missing.txt'' @ [CHR 0x27] @ '' not found'' \<noteq> exc_msg not_there"
  by (simp add: handler_defs io_defs input_defs host_defs path_name_def str_of_arg_def not_there_def)

end
